theory Spec2Isabelle
  imports Complex_Main "HOL-Library.Log_Nat" "HOL-Library.Multiset" "HOL-Library.Word"
begin

section \<open>Binary64 arithmetic\<close>

text \<open>
  The C++ type \<open>double\<close> is IEEE 754 binary64. A finite double is a rational number, so
  doubles are modelled as reals and every arithmetic operation rounds its exact result
  to the nearest double, ties to even (\<open>fl64\<close>). The significand has 53 bits; below the
  normal range the spacing stays at \<open>2 powi -1074\<close> (gradual underflow). The model has no
  infinities and no NaN: \<open>is_double\<close> bounds a value by the largest finite double, and
  division is only used with a non-zero divisor.
\<close>

type_synonym double = real

definition roundHalfEven :: "real \<Rightarrow> int" where
  "roundHalfEven x =
     (let f = \<lfloor>x\<rfloor>; r = x - of_int f
      in if r < 1 / 2 then f else if 1 / 2 < r then f + 1 else if even f then f else f + 1)"

definition ilogb :: "real \<Rightarrow> int" where
  \<comment> \<open>for \<open>0 < q\<close>: the exponent \<open>k\<close> with \<open>2 powi k \<le> q < 2 powi (k + 1)\<close>\<close>
  "ilogb q = (if 1 \<le> q then bitlen \<lfloor>q\<rfloor> - 1 else - bitlen (\<lceil>1 / q\<rceil> - 1))"

definition ulpExponent :: "real \<Rightarrow> int" where
  "ulpExponent q = max (ilogb \<bar>q\<bar> - 52) (- 1074)"

definition fl64 :: "real \<Rightarrow> double" where
  "fl64 q =
     (if q = 0 then 0
      else sgn q * of_int (roundHalfEven (\<bar>q\<bar> / 2 powi ulpExponent q)) * 2 powi ulpExponent q)"

definition DBL_MAX :: double where
  "DBL_MAX = (2 ^ 53 - 1) * 2 ^ 971"

definition is_double :: "real \<Rightarrow> bool" where
  "is_double x \<longleftrightarrow> fl64 x = x \<and> \<bar>x\<bar> \<le> DBL_MAX"

definition in_range :: "real \<Rightarrow> bool" where
  \<comment> \<open>zero, or of a magnitude between the smallest normal double and \<open>DBL_MAX\<close>\<close>
  "in_range x \<longleftrightarrow> x = 0 \<or> (2 powi (- 1022) \<le> \<bar>x\<bar> \<and> \<bar>x\<bar> \<le> DBL_MAX)"

definition dadd :: "double \<Rightarrow> double \<Rightarrow> double" where
  "dadd a b = fl64 (a + b)"

definition dsub :: "double \<Rightarrow> double \<Rightarrow> double" where
  "dsub a b = fl64 (a - b)"

definition dmul :: "double \<Rightarrow> double \<Rightarrow> double" where
  "dmul a b = fl64 (a * b)"

definition ddiv :: "double \<Rightarrow> double \<Rightarrow> double" where
  "ddiv a b = fl64 (a / b)"

definition double_of_nat :: "nat \<Rightarrow> double" where
  \<comment> \<open>the conversions \<open>double(_w)\<close> and \<open>double(bytes)\<close>\<close>
  "double_of_nat n = fl64 (of_nat n)"


section \<open>Binary32 arithmetic\<close>

text \<open>
  Rounding to nearest, ties to even, to a significand of 24 bits, with gradual underflow:
  the format of \<open>float\<close>.
\<close>

definition ulpExponent32 :: "real \<Rightarrow> int" where
  "ulpExponent32 q = max (ilogb \<bar>q\<bar> - 23) (- 149)"

definition fl32 :: "real \<Rightarrow> real" where
  "fl32 q =
     (if q = 0 then 0
      else sgn q * of_int (roundHalfEven (\<bar>q\<bar> / 2 powi ulpExponent32 q)) * 2 powi ulpExponent32 q)"



section \<open>camera/IntrinsicsScaleOffset.hpp\<close>

type_synonym Vec2 = "double \<times> double"

text \<open>
  The members \<open>_w\<close>, \<open>_h\<close> (of the base class, \<open>unsigned int\<close>), \<open>_scale\<close> and
  \<open>_offset\<close>.
\<close>

record IntrinsicsScaleOffset =
  m_w :: nat
  m_h :: nat
  m_scale :: Vec2
  m_offset :: Vec2

definition getPrincipalPoint :: "IntrinsicsScaleOffset \<Rightarrow> Vec2" where
  "getPrincipalPoint I =
     (dadd (fst (m_offset I)) (dmul (double_of_nat (m_w I)) (1 / 2)),
      dadd (snd (m_offset I)) (dmul (double_of_nat (m_h I)) (1 / 2)))"

definition cam2ima :: "IntrinsicsScaleOffset \<Rightarrow> Vec2 \<Rightarrow> Vec2" where
  "cam2ima I p =
     (let pp = getPrincipalPoint I
      in (dadd (dmul (fst p) (fst (m_scale I))) (fst pp),
          dadd (dmul (snd p) (snd (m_scale I))) (snd pp)))"

definition ima2cam :: "IntrinsicsScaleOffset \<Rightarrow> Vec2 \<Rightarrow> Vec2" where
  "ima2cam I p =
     (let pp = getPrincipalPoint I
      in (ddiv (dsub (fst p) (fst pp)) (fst (m_scale I)),
          ddiv (dsub (snd p) (snd pp)) (snd (m_scale I))))"

text \<open>
  The condition under which a round trip performs no rounding: the point and the two
  intermediate results of the first transform are doubles.
\<close>

definition cam_roundtrip_exact :: "IntrinsicsScaleOffset \<Rightarrow> Vec2 \<Rightarrow> bool" where
  "cam_roundtrip_exact I p \<longleftrightarrow>
     (let pp = getPrincipalPoint I
      in is_double (fst p) \<and> is_double (snd p)
       \<and> is_double (fst p * fst (m_scale I)) \<and> is_double (snd p * snd (m_scale I))
       \<and> is_double (fst p * fst (m_scale I) + fst pp)
       \<and> is_double (snd p * snd (m_scale I) + snd pp))"

definition ima_roundtrip_exact :: "IntrinsicsScaleOffset \<Rightarrow> Vec2 \<Rightarrow> bool" where
  "ima_roundtrip_exact I p \<longleftrightarrow>
     (let pp = getPrincipalPoint I
      in is_double (fst p) \<and> is_double (snd p)
       \<and> is_double (fst p - fst pp) \<and> is_double (snd p - snd pp)
       \<and> is_double ((fst p - fst pp) / fst (m_scale I))
       \<and> is_double ((snd p - snd pp) / snd (m_scale I)))"

text \<open>
  The condition under which every operation of a round trip rounds with a relative error
  of at most \<open>2 powi - 53\<close>: the exact result of each of the four operations, per
  component, neither underflows nor overflows.
\<close>

definition cam_roundtrip_in_range :: "IntrinsicsScaleOffset \<Rightarrow> Vec2 \<Rightarrow> bool" where
  "cam_roundtrip_in_range I p \<longleftrightarrow>
     (let pp = getPrincipalPoint I; q = cam2ima I p
      in in_range (fst p * fst (m_scale I)) \<and> in_range (snd p * snd (m_scale I))
       \<and> in_range (dmul (fst p) (fst (m_scale I)) + fst pp)
       \<and> in_range (dmul (snd p) (snd (m_scale I)) + snd pp)
       \<and> in_range (fst q - fst pp) \<and> in_range (snd q - snd pp)
       \<and> in_range (dsub (fst q) (fst pp) / fst (m_scale I))
       \<and> in_range (dsub (snd q) (snd pp) / snd (m_scale I)))"

definition ima_roundtrip_in_range :: "IntrinsicsScaleOffset \<Rightarrow> Vec2 \<Rightarrow> bool" where
  "ima_roundtrip_in_range I p \<longleftrightarrow>
     (let pp = getPrincipalPoint I; q = ima2cam I p
      in in_range (fst p - fst pp) \<and> in_range (snd p - snd pp)
       \<and> in_range (dsub (fst p) (fst pp) / fst (m_scale I))
       \<and> in_range (dsub (snd p) (snd pp) / snd (m_scale I))
       \<and> in_range (fst q * fst (m_scale I)) \<and> in_range (snd q * snd (m_scale I))
       \<and> in_range (dmul (fst q) (fst (m_scale I)) + fst pp)
       \<and> in_range (dmul (snd q) (snd (m_scale I)) + snd pp))"



section \<open>depthMap/Refine.cpp: data\<close>

text \<open>
  The file is the host side of the refine engine: it sizes and allocates device buffers,
  launches device kernels on them in a fixed order, and copies or exports their contents.
  Logging is left out of the model. An error inside a kernel or an exporter is not handled
  anywhere in the file (it ends the job) and is outside the model; a failed allocation is
  the one error of the constructor.

  A \<open>float\<close> is carried as its 32-bit pattern: the engine itself never computes with the
  values of its buffers, it only hands them to device kernels and copies them.
  \<open>TSimRefine\<close> is an alias declared outside the file; the file builds its one value
  of that type from a \<open>float\<close> literal, \<open>TSimRefine(0.f)\<close>, and the type is taken to be
  \<open>float\<close>. An element of the similarity volume is carried as the number it stands for.
  A C++ \<open>int\<close> is 32 bits wide. It is carried as an \<open>int\<close> of HOL, and the result of
  every \<open>int\<close> operation of the file is reduced to 32 bits in two's complement
  (\<open>int32\<close>), which is what the compiled program computes; the language itself leaves
  signed overflow undefined.
\<close>

definition int32 :: "int \<Rightarrow> int" where
  "int32 x = (x + 2 ^ 31) mod 2 ^ 32 - 2 ^ 31"

type_synonym float = "32 word"
type_synonym float2 = "float \<times> float"
type_synonym float3 = "float \<times> float \<times> float"
type_synonym TSimRefine = real

definition float_one :: float where
  \<comment> \<open>the literal \<open>1.0f\<close>\<close>
  "float_one = 0x3F800000"

definition TSimRefine_zero :: TSimRefine where
  \<comment> \<open>the value \<open>TSimRefine(0.f)\<close>\<close>
  "TSimRefine_zero = 0"

record Range =
  range_begin :: int
  range_end :: int

record ROI =
  roi_x :: Range
  roi_y :: Range

record Tile =
  rc :: int
  roi :: ROI
  refineTCams :: "int list"
  nbTiles :: int

record TileParams =
  bufferWidth :: int
  bufferHeight :: int

record RefineParams =
  scale :: int
  stepXY :: int
  halfNbDepths :: int
  useRefineFuse :: bool
  useColorOptimization :: bool
  useNormalMap :: bool
  optimizationNbIterations :: int
  exportIntermediateDepthSimMaps :: bool
  exportIntermediateCrossVolumes :: bool
  exportIntermediateVolume9pCsv :: bool

text \<open>
  A device buffer \<open>CudaDeviceMemoryPitched<T, Dim>\<close>: its extents (\<open>CudaSize<Dim>\<close>, a pair
  or a triple, holding the \<open>int\<close> values that the constructor passes) and the state of
  the memory behind \<open>getBuffer()\<close>: \<open>Null\<close> before any allocation, \<open>Uninit\<close> once
  allocated and not yet written, \<open>Data\<close> afterwards. The class is declared outside the
  file; a default-constructed buffer is taken to have zero extents and no memory.
\<close>

datatype 'a devmem = Null | Uninit | Data "'a list"

record ('s, 'a) CudaDeviceMemoryPitched =
  getSize :: 's
  getBuffer :: "'a devmem"

type_synonym CudaSize2 = "int \<times> int"
type_synonym CudaSize3 = "int \<times> int \<times> int"

definition extents2 :: "CudaSize2 \<Rightarrow> int list" where
  "extents2 d = [fst d, snd d]"

definition extents3 :: "CudaSize3 \<Rightarrow> int list" where
  "extents3 d = [fst d, fst (snd d), snd (snd d)]"

definition z :: "CudaSize3 \<Rightarrow> int" where
  "z d = snd (snd d)"

definition unallocated2 :: "(CudaSize2, 'a) CudaDeviceMemoryPitched" where
  \<comment> \<open>a default-constructed buffer\<close>
  "unallocated2 = \<lparr>getSize = (0, 0), getBuffer = Null\<rparr>"

definition unallocated3 :: "(CudaSize3, 'a) CudaDeviceMemoryPitched" where
  "unallocated3 = \<lparr>getSize = (0, 0, 0), getBuffer = Null\<rparr>"

definition allocated :: "'s \<Rightarrow> ('s, 'a) CudaDeviceMemoryPitched" where
  \<comment> \<open>a buffer after \<open>allocate(dim)\<close>\<close>
  "allocated d = \<lparr>getSize = d, getBuffer = Uninit\<rparr>"

definition writeBuffer :: "'a list \<Rightarrow> ('s, 'a) CudaDeviceMemoryPitched \<Rightarrow> ('s, 'a) CudaDeviceMemoryPitched" where
  \<comment> \<open>a kernel has filled the buffer; the extents stay\<close>
  "writeBuffer xs b = b\<lparr>getBuffer := Data xs\<rparr>"

text \<open>
  The element type of a buffer, on which an allocation and a byte count depend.
\<close>

datatype elem = Float | Float2 | Float3 | SimRefine

text \<open>
  The operations on the device and on files that the engine invokes, in the order in
  which it invokes them.
\<close>

datatype call =
    Allocate elem "int list"
  | RequestCamera int int
  | DepthSimMapUpscaleAndFilter
  | WriteDepthSimMap string
  | DepthSimMapComputePixSize
  | NormalMapUpscale
  | DepthSimMapCopyDepthOnly
  | VolumeInitialize
  | VolumeRefineSimilarity int Range
  | ExportSimilarityVolumeCross string int int
  | ExportSimilaritySamplesCSV string int int
  | VolumeRefineBestDepth
  | DepthSimMapOptimizeGradientDescent
  | CopyFrom

fun is_export :: "call \<Rightarrow> bool" where
  "is_export (WriteDepthSimMap _) = True"
| "is_export (ExportSimilarityVolumeCross _ _ _) = True"
| "is_export (ExportSimilaritySamplesCSV _ _ _) = True"
| "is_export _ = False"


datatype error = CudaAllocationError

text \<open>
  The class \<open>Refine\<close>. The members \<open>_mp\<close> (the read-only camera registry) and \<open>_stream\<close>
  (one ordered queue: the operations run in program order) carry no state of their own;
  \<open>calls\<close> is the record of the operations invoked so far.
\<close>

record Refine =
  tileParams :: TileParams
  refineParams :: RefineParams
  sgmDepthPixSizeMap_dmp :: "(CudaSize2, float2) CudaDeviceMemoryPitched"
  refinedDepthSimMap_dmp :: "(CudaSize2, float2) CudaDeviceMemoryPitched"
  optimizedDepthSimMap_dmp :: "(CudaSize2, float2) CudaDeviceMemoryPitched"
  normalMap_dmp :: "(CudaSize2, float3) CudaDeviceMemoryPitched"
  volumeRefineSim_dmp :: "(CudaSize3, TSimRefine) CudaDeviceMemoryPitched"
  optImgVariance_dmp :: "(CudaSize2, float) CudaDeviceMemoryPitched"
  optTmpDepthMap_dmp :: "(CudaSize2, float) CudaDeviceMemoryPitched"
  calls :: "call list"

text \<open>
  What the file uses and does not define is a parameter of the model: the host helpers
  \<open>divideRoundUp\<close> and \<open>downscaleROI\<close>, the device allocator (whether an allocation of given
  element type and extents succeeds) with the padded and unpadded byte counts of a buffer
  (\<open>getBytesPadded()\<close>, \<open>getBytesUnpadded()\<close>), the camera cache
  (\<open>DeviceCache::requestCamera\<close>, for the registry \<open>_mp\<close> of the engine), and the device
  kernels. A kernel is a function from the buffers and arguments that the source passes
  to the new contents of the buffers it writes; the stream argument is left out. A camera
  is the value that the cache returns for a camera index and a scale; eviction inside the
  cache is not modelled.
\<close>

record 'cam env =
  divideRoundUp :: "int \<Rightarrow> int \<Rightarrow> int"
  downscaleROI :: "ROI \<Rightarrow> int \<Rightarrow> ROI"
  deviceMalloc :: "elem \<Rightarrow> int list \<Rightarrow> bool"
  getBytesPadded :: "elem \<Rightarrow> int list \<Rightarrow> nat"
  getBytesUnpadded :: "elem \<Rightarrow> int list \<Rightarrow> nat"
  requestCamera :: "int \<Rightarrow> int \<Rightarrow> 'cam"
  cuda_depthSimMapUpscaleAndFilter ::
    "(CudaSize2, float2) CudaDeviceMemoryPitched \<Rightarrow> (CudaSize2, float2) CudaDeviceMemoryPitched
      \<Rightarrow> 'cam \<Rightarrow> RefineParams \<Rightarrow> ROI \<Rightarrow> float2 list"
  cuda_depthSimMapComputePixSize ::
    "(CudaSize2, float2) CudaDeviceMemoryPitched \<Rightarrow> 'cam \<Rightarrow> RefineParams \<Rightarrow> ROI \<Rightarrow> float2 list"
  cuda_normalMapUpscale ::
    "(CudaSize2, float3) CudaDeviceMemoryPitched \<Rightarrow> (CudaSize2, float3) CudaDeviceMemoryPitched
      \<Rightarrow> ROI \<Rightarrow> float3 list"
  cuda_volumeInitialize ::
    "(CudaSize3, TSimRefine) CudaDeviceMemoryPitched \<Rightarrow> TSimRefine \<Rightarrow> TSimRefine list"
  cuda_volumeRefineSimilarity ::
    "(CudaSize3, TSimRefine) CudaDeviceMemoryPitched \<Rightarrow> (CudaSize2, float2) CudaDeviceMemoryPitched
      \<Rightarrow> (CudaSize2, float3) CudaDeviceMemoryPitched option \<Rightarrow> 'cam \<Rightarrow> 'cam \<Rightarrow> RefineParams
      \<Rightarrow> Range \<Rightarrow> ROI \<Rightarrow> TSimRefine list"
  cuda_volumeRefineBestDepth ::
    "(CudaSize2, float2) CudaDeviceMemoryPitched \<Rightarrow> (CudaSize2, float2) CudaDeviceMemoryPitched
      \<Rightarrow> (CudaSize3, TSimRefine) CudaDeviceMemoryPitched \<Rightarrow> 'cam \<Rightarrow> RefineParams \<Rightarrow> ROI
      \<Rightarrow> float2 list"
  cuda_depthSimMapOptimizeGradientDescent ::
    "(CudaSize2, float2) CudaDeviceMemoryPitched \<Rightarrow> (CudaSize2, float) CudaDeviceMemoryPitched
      \<Rightarrow> (CudaSize2, float) CudaDeviceMemoryPitched \<Rightarrow> (CudaSize2, float2) CudaDeviceMemoryPitched
      \<Rightarrow> (CudaSize2, float2) CudaDeviceMemoryPitched \<Rightarrow> 'cam \<Rightarrow> RefineParams \<Rightarrow> ROI
      \<Rightarrow> float2 list \<times> float list \<times> float list"

definition call :: "call \<Rightarrow> Refine \<Rightarrow> Refine" where
  "call c s = s\<lparr>calls := calls s @ [c]\<rparr>"


section \<open>depthMap/Refine.cpp: operations\<close>

subsection \<open>Construction\<close>

definition seqE :: "('s \<Rightarrow> error + 's) list \<Rightarrow> 's \<Rightarrow> error + 's" where
  \<comment> \<open>statements in sequence; the first failure leaves the sequence, as an exception does\<close>
  "seqE steps s = foldl (\<lambda>r step. case r of Inl e \<Rightarrow> Inl e | Inr t \<Rightarrow> step t) (Inr s) steps"

definition allocate :: "'cam env \<Rightarrow> elem \<Rightarrow> int list \<Rightarrow> (Refine \<Rightarrow> Refine) \<Rightarrow> Refine \<Rightarrow> error + Refine" where
  \<comment> \<open>\<open>member.allocate(dim)\<close>: \<open>upd\<close> stores the allocated buffer in the member\<close>
  "allocate env t ds upd s =
     (if deviceMalloc env t ds then Inr (call (Allocate t ds) (upd s)) else Inl CudaAllocationError)"

definition skip :: "Refine \<Rightarrow> error + Refine" where
  "skip s = Inr s"

definition members_initial :: "TileParams \<Rightarrow> RefineParams \<Rightarrow> Refine" where
  \<comment> \<open>the member initialiser list; the buffers are default-constructed\<close>
  "members_initial tp rp =
     \<lparr>tileParams = tp, refineParams = rp,
      sgmDepthPixSizeMap_dmp = unallocated2, refinedDepthSimMap_dmp = unallocated2,
      optimizedDepthSimMap_dmp = unallocated2, normalMap_dmp = unallocated2,
      volumeRefineSim_dmp = unallocated3, optImgVariance_dmp = unallocated2,
      optTmpDepthMap_dmp = unallocated2, calls = []\<rparr>"

definition Refine_Refine :: "'cam env \<Rightarrow> TileParams \<Rightarrow> RefineParams \<Rightarrow> error + Refine" where
  "Refine_Refine env tp rp =
     (let s0 = members_initial tp rp;
          downscale = int32 (scale (refineParams s0) * stepXY (refineParams s0));
          maxTileWidth = divideRoundUp env (bufferWidth tp) downscale;
          maxTileHeight = divideRoundUp env (bufferHeight tp) downscale;
          depthSimMapDim = (maxTileWidth, maxTileHeight);
          nbDepthsToRefine = int32 (int32 (halfNbDepths (refineParams s0) * 2) + 1);
          volDim = (maxTileWidth, maxTileHeight, nbDepthsToRefine)
      in seqE
          [allocate env Float2 (extents2 depthSimMapDim) (\<lambda>s. s\<lparr>sgmDepthPixSizeMap_dmp := allocated depthSimMapDim\<rparr>),
           allocate env Float2 (extents2 depthSimMapDim) (\<lambda>s. s\<lparr>refinedDepthSimMap_dmp := allocated depthSimMapDim\<rparr>),
           allocate env Float2 (extents2 depthSimMapDim) (\<lambda>s. s\<lparr>optimizedDepthSimMap_dmp := allocated depthSimMapDim\<rparr>),
           if useNormalMap rp
           then allocate env Float3 (extents2 depthSimMapDim)
                  (\<lambda>s. s\<lparr>normalMap_dmp := allocated depthSimMapDim\<rparr>)
           else skip,
           allocate env SimRefine (extents3 volDim)
             (\<lambda>s. s\<lparr>volumeRefineSim_dmp := allocated volDim\<rparr>),
           if useColorOptimization (refineParams s0)
           then seqE
                  [allocate env Float (extents2 depthSimMapDim)
                     (\<lambda>s. s\<lparr>optImgVariance_dmp := allocated depthSimMapDim\<rparr>),
                   allocate env Float (extents2 depthSimMapDim)
                     (\<lambda>s. s\<lparr>optTmpDepthMap_dmp := allocated depthSimMapDim\<rparr>)]
           else skip]
          s0)"

subsection \<open>Memory accounting\<close>







subsection \<open>Refining one tile\<close>

definition cuda_depthSimMapCopyDepthOnly ::
  "(CudaSize2, float2) CudaDeviceMemoryPitched \<Rightarrow> (CudaSize2, float2) CudaDeviceMemoryPitched
    \<Rightarrow> float \<Rightarrow> float2 devmem" where
  \<comment> \<open>Modelled from the spec: the kernel \<open>cuda_depthSimMapCopyDepthOnly\<close> is not in the file.
      "Copy the upscaled depth through unchanged and fix similarity to a constant": every
      pixel of the output takes the depth of the input pixel and the given similarity.\<close>
  "cuda_depthSimMapCopyDepthOnly out_dmp in_dmp defaultSim =
     map_devmem (\<lambda>depthSim. (fst depthSim, defaultSim)) (getBuffer in_dmp)"

definition copyFrom ::
  "('s, 'a) CudaDeviceMemoryPitched \<Rightarrow> ('s, 'a) CudaDeviceMemoryPitched \<Rightarrow> ('s, 'a) CudaDeviceMemoryPitched" where
  \<comment> \<open>Modelled from the spec: the buffer class is not in the file. \<open>dst.copyFrom(src)\<close> is
      "a verbatim copy": the contents of \<open>src\<close> replace those of \<open>dst\<close>, whose extents stay.\<close>
  "copyFrom src dst = dst\<lparr>getBuffer := getBuffer src\<rparr>"

definition exportVolumeInformation :: "Tile \<Rightarrow> string \<Rightarrow> Refine \<Rightarrow> Refine" where
  \<comment> \<open>a \<open>const\<close> member: it copies the volume and the upscaled map to the host and passes
      the copies to the exporters\<close>
  "exportVolumeInformation tile name s =
     (if \<not> exportIntermediateCrossVolumes (refineParams s)
         \<and> \<not> exportIntermediateVolume9pCsv (refineParams s)
      then s
      else
        let tileBeginX = (if nbTiles tile > 1 then range_begin (roi_x (roi tile)) else - 1);
            tileBeginY = (if nbTiles tile > 1 then range_begin (roi_y (roi tile)) else - 1);
            s = (if exportIntermediateCrossVolumes (refineParams s)
                 then call (ExportSimilarityVolumeCross name tileBeginX tileBeginY) s else s);
            s = (if exportIntermediateVolume9pCsv (refineParams s)
                 then call (ExportSimilaritySamplesCSV name tileBeginX tileBeginY) s else s)
        in s)"

definition refineSimilarityTc :: "'cam env \<Rightarrow> Tile \<Rightarrow> ROI \<Rightarrow> Range \<Rightarrow> 'cam \<Rightarrow> int \<Rightarrow> Refine \<Rightarrow> Refine" where
  \<comment> \<open>the body of the loop over \<open>tile.refineTCams\<close>\<close>
  "refineSimilarityTc env tile downscaledRoi depthRange rcDeviceCamera tc s =
     (let tcDeviceCamera = requestCamera env tc (scale (refineParams s));
          s = call (RequestCamera tc (scale (refineParams s))) s
      in call (VolumeRefineSimilarity tc depthRange)
           (s\<lparr>volumeRefineSim_dmp :=
                writeBuffer
                  (cuda_volumeRefineSimilarity env (volumeRefineSim_dmp s) (sgmDepthPixSizeMap_dmp s)
                     (if useNormalMap (refineParams s) then Some (normalMap_dmp s) else None)
                     rcDeviceCamera tcDeviceCamera (refineParams s) depthRange downscaledRoi)
                  (volumeRefineSim_dmp s)\<rparr>))"

definition refineAndFuseDepthSimMap :: "'cam env \<Rightarrow> Tile \<Rightarrow> Refine \<Rightarrow> Refine" where
  "refineAndFuseDepthSimMap env tile s =
     (let downscaledRoi =
            downscaleROI env (roi tile) (int32 (scale (refineParams s) * stepXY (refineParams s)));
          depthRange = \<lparr>range_begin = 0, range_end = z (getSize (volumeRefineSim_dmp s))\<rparr>;
          s = call VolumeInitialize
                (s\<lparr>volumeRefineSim_dmp :=
                     writeBuffer (cuda_volumeInitialize env (volumeRefineSim_dmp s) TSimRefine_zero)
                       (volumeRefineSim_dmp s)\<rparr>);
          rcDeviceCamera = requestCamera env (rc tile) (scale (refineParams s));
          s = call (RequestCamera (rc tile) (scale (refineParams s))) s;
          s = fold (refineSimilarityTc env tile downscaledRoi depthRange rcDeviceCamera)
                (refineTCams tile) s;
          s = exportVolumeInformation tile ''afterRefine'' s
      in call VolumeRefineBestDepth
           (s\<lparr>refinedDepthSimMap_dmp :=
                writeBuffer
                  (cuda_volumeRefineBestDepth env (refinedDepthSimMap_dmp s) (sgmDepthPixSizeMap_dmp s)
                     (volumeRefineSim_dmp s) rcDeviceCamera (refineParams s) downscaledRoi)
                  (refinedDepthSimMap_dmp s)\<rparr>))"

definition optimizeDepthSimMap :: "'cam env \<Rightarrow> Tile \<Rightarrow> Refine \<Rightarrow> Refine" where
  "optimizeDepthSimMap env tile s =
     (let downscaledRoi =
            downscaleROI env (roi tile) (int32 (scale (refineParams s) * stepXY (refineParams s)));
          rcDeviceCamera = requestCamera env (rc tile) (scale (refineParams s));
          s = call (RequestCamera (rc tile) (scale (refineParams s))) s;
          written =
            cuda_depthSimMapOptimizeGradientDescent env (optimizedDepthSimMap_dmp s)
              (optImgVariance_dmp s) (optTmpDepthMap_dmp s) (sgmDepthPixSizeMap_dmp s)
              (refinedDepthSimMap_dmp s) rcDeviceCamera (refineParams s) downscaledRoi
      in call DepthSimMapOptimizeGradientDescent
           (s\<lparr>optimizedDepthSimMap_dmp := writeBuffer (fst written) (optimizedDepthSimMap_dmp s),
              optImgVariance_dmp := writeBuffer (fst (snd written)) (optImgVariance_dmp s),
              optTmpDepthMap_dmp := writeBuffer (snd (snd written)) (optTmpDepthMap_dmp s)\<rparr>))"

definition upscaleSgmDepthPixSizeMap ::
  "'cam env \<Rightarrow> Tile \<Rightarrow> (CudaSize2, float2) CudaDeviceMemoryPitched
    \<Rightarrow> (CudaSize2, float3) CudaDeviceMemoryPitched \<Rightarrow> Refine \<Rightarrow> Refine" where
  \<comment> \<open>the first block of \<open>refineRc\<close>: "compute upscaled SGM depth/pixSize map"\<close>
  "upscaleSgmDepthPixSizeMap env tile in_sgmDepthSimMap_dmp in_sgmNormalMap_dmp s =
     (let downscaledRoi =
            downscaleROI env (roi tile) (int32 (scale (refineParams s) * stepXY (refineParams s)));
          rcDeviceCamera = requestCamera env (rc tile) (scale (refineParams s));
          s = call (RequestCamera (rc tile) (scale (refineParams s))) s;
          s = call DepthSimMapUpscaleAndFilter
                (s\<lparr>sgmDepthPixSizeMap_dmp :=
                     writeBuffer
                       (cuda_depthSimMapUpscaleAndFilter env (sgmDepthPixSizeMap_dmp s)
                          in_sgmDepthSimMap_dmp rcDeviceCamera (refineParams s) downscaledRoi)
                       (sgmDepthPixSizeMap_dmp s)\<rparr>);
          s = (if exportIntermediateDepthSimMaps (refineParams s)
               then call (WriteDepthSimMap ''_sgmUpscaled'') s else s);
          s = call DepthSimMapComputePixSize
                (s\<lparr>sgmDepthPixSizeMap_dmp :=
                     writeBuffer
                       (cuda_depthSimMapComputePixSize env (sgmDepthPixSizeMap_dmp s) rcDeviceCamera
                          (refineParams s) downscaledRoi)
                       (sgmDepthPixSizeMap_dmp s)\<rparr>)
      in if useNormalMap (refineParams s) \<and> getBuffer in_sgmNormalMap_dmp \<noteq> Null
         then call NormalMapUpscale
                (s\<lparr>normalMap_dmp :=
                     writeBuffer (cuda_normalMapUpscale env (normalMap_dmp s) in_sgmNormalMap_dmp downscaledRoi)
                       (normalMap_dmp s)\<rparr>)
         else s)"

definition refineRc ::
  "'cam env \<Rightarrow> Tile \<Rightarrow> (CudaSize2, float2) CudaDeviceMemoryPitched
    \<Rightarrow> (CudaSize2, float3) CudaDeviceMemoryPitched \<Rightarrow> Refine \<Rightarrow> Refine" where
  "refineRc env tile in_sgmDepthSimMap_dmp in_sgmNormalMap_dmp s =
     (let s = upscaleSgmDepthPixSizeMap env tile in_sgmDepthSimMap_dmp in_sgmNormalMap_dmp s;
          s = (if useRefineFuse (refineParams s)
               then refineAndFuseDepthSimMap env tile s
               else call DepthSimMapCopyDepthOnly
                      (s\<lparr>refinedDepthSimMap_dmp :=
                           (refinedDepthSimMap_dmp s)
                             \<lparr>getBuffer :=
                                cuda_depthSimMapCopyDepthOnly (refinedDepthSimMap_dmp s)
                                  (sgmDepthPixSizeMap_dmp s) float_one\<rparr>\<rparr>));
          s = (if exportIntermediateDepthSimMaps (refineParams s)
               then call (WriteDepthSimMap ''_refinedFused'') s else s)
      in if useColorOptimization (refineParams s) \<and> optimizationNbIterations (refineParams s) > 0
         then optimizeDepthSimMap env tile s
         else call CopyFrom
                (s\<lparr>optimizedDepthSimMap_dmp :=
                     copyFrom (refinedDepthSimMap_dmp s) (optimizedDepthSimMap_dmp s)\<rparr>))"

text \<open>
  The seven device buffers of an engine, and an engine with other export flags.
\<close>

definition buffers where
  "buffers s =
     (sgmDepthPixSizeMap_dmp s, refinedDepthSimMap_dmp s, optimizedDepthSimMap_dmp s,
      normalMap_dmp s, volumeRefineSim_dmp s, optImgVariance_dmp s, optTmpDepthMap_dmp s)"

definition with_export_flags :: "bool \<Rightarrow> bool \<Rightarrow> bool \<Rightarrow> RefineParams \<Rightarrow> RefineParams" where
  "with_export_flags maps cross csv p =
     p\<lparr>exportIntermediateDepthSimMaps := maps, exportIntermediateCrossVolumes := cross,
       exportIntermediateVolume9pCsv := csv\<rparr>"


section \<open>Properties of the parameters\<close>

text \<open>
  The engine as the constructor leaves it when every allocation has succeeded.
\<close>

definition constructed :: "'cam env \<Rightarrow> TileParams \<Rightarrow> RefineParams \<Rightarrow> Refine" where
  "constructed env tp rp =
     (let downscale = int32 (scale rp * stepXY rp);
          depthSimMapDim =
            (divideRoundUp env (bufferWidth tp) downscale, divideRoundUp env (bufferHeight tp) downscale);
          volDim = (fst depthSimMapDim, snd depthSimMapDim, int32 (int32 (halfNbDepths rp * 2) + 1))
      in \<lparr>tileParams = tp, refineParams = rp,
          sgmDepthPixSizeMap_dmp = allocated depthSimMapDim,
          refinedDepthSimMap_dmp = allocated depthSimMapDim,
          optimizedDepthSimMap_dmp = allocated depthSimMapDim,
          normalMap_dmp =
            (if useNormalMap rp then allocated depthSimMapDim else unallocated2),
          volumeRefineSim_dmp = allocated volDim,
          optImgVariance_dmp =
            (if useColorOptimization rp then allocated depthSimMapDim
             else unallocated2),
          optTmpDepthMap_dmp =
            (if useColorOptimization rp then allocated depthSimMapDim
             else unallocated2),
          calls =
            [Allocate Float2 (extents2 depthSimMapDim), Allocate Float2 (extents2 depthSimMapDim),
             Allocate Float2 (extents2 depthSimMapDim)]
            @ (if useNormalMap rp then [Allocate Float3 (extents2 depthSimMapDim)] else [])
            @ [Allocate SimRefine (extents3 volDim)]
            @ (if useColorOptimization rp
               then [Allocate Float (extents2 depthSimMapDim), Allocate Float (extents2 depthSimMapDim)]
               else [])\<rparr>)"


definition new_calls :: "Refine \<Rightarrow> Refine \<Rightarrow> call list" where
  \<comment> \<open>the operations invoked between the states \<open>s\<close> and \<open>s'\<close>\<close>
  "new_calls s s' = drop (length (calls s)) (calls s')"

text \<open>
  What refining a tile may do to an engine: the parameters and the extents of the buffers
  stay, operations are added to the record of calls, and each added operation is one that
  the parameters of the engine permit.
\<close>

definition same_shape :: "Refine \<Rightarrow> Refine \<Rightarrow> bool" where
  "same_shape s s' \<longleftrightarrow>
     refineParams s' = refineParams s \<and> tileParams s' = tileParams s
     \<and> getSize (sgmDepthPixSizeMap_dmp s') = getSize (sgmDepthPixSizeMap_dmp s)
     \<and> getSize (refinedDepthSimMap_dmp s') = getSize (refinedDepthSimMap_dmp s)
     \<and> getSize (optimizedDepthSimMap_dmp s') = getSize (optimizedDepthSimMap_dmp s)
     \<and> getSize (normalMap_dmp s') = getSize (normalMap_dmp s)
     \<and> getSize (volumeRefineSim_dmp s') = getSize (volumeRefineSim_dmp s)
     \<and> getSize (optImgVariance_dmp s') = getSize (optImgVariance_dmp s)
     \<and> getSize (optTmpDepthMap_dmp s') = getSize (optTmpDepthMap_dmp s)"

definition permitted :: "Refine \<Rightarrow> call \<Rightarrow> bool" where
  "permitted s c =
     (case c of
        Allocate t ds \<Rightarrow> False
      | WriteDepthSimMap suffix \<Rightarrow> exportIntermediateDepthSimMaps (refineParams s)
      | ExportSimilarityVolumeCross name x y \<Rightarrow> exportIntermediateCrossVolumes (refineParams s)
      | ExportSimilaritySamplesCSV name x y \<Rightarrow> exportIntermediateVolume9pCsv (refineParams s)
      | NormalMapUpscale \<Rightarrow> useNormalMap (refineParams s)
      | DepthSimMapCopyDepthOnly \<Rightarrow> \<not> useRefineFuse (refineParams s)
      | VolumeInitialize \<Rightarrow> useRefineFuse (refineParams s)
      | VolumeRefineSimilarity tc depthRange \<Rightarrow>
          useRefineFuse (refineParams s)
          \<and> depthRange = \<lparr>range_begin = 0, range_end = z (getSize (volumeRefineSim_dmp s))\<rparr>
      | VolumeRefineBestDepth \<Rightarrow> useRefineFuse (refineParams s)
      | DepthSimMapOptimizeGradientDescent \<Rightarrow>
          useColorOptimization (refineParams s) \<and> 0 < optimizationNbIterations (refineParams s)
      | CopyFrom \<Rightarrow>
          \<not> (useColorOptimization (refineParams s) \<and> 0 < optimizationNbIterations (refineParams s))
      | _ \<Rightarrow> True)"

definition step_ok :: "Refine \<Rightarrow> Refine \<Rightarrow> bool" where
  "step_ok s s' \<longleftrightarrow>
     same_shape s s' \<and> calls s' = calls s @ new_calls s s' \<and> list_all (permitted s) (new_calls s s')"

text \<open>
  Assumptions on the parameters. The kernels receive the whole \<open>RefineParams\<close>; a kernel
  that does not look at the export flags gives the same result when they change. The host
  helper \<open>divideRoundUp\<close> is monotone in the dividend for the divisor in use, and a byte
  count does not decrease when an extent grows.
\<close>

definition export_blind :: "'cam env \<Rightarrow> bool" where
  "export_blind env \<longleftrightarrow>
     (\<forall>maps cross csv p.
        (\<forall>out_dmp in_dmp cam r.
           cuda_depthSimMapUpscaleAndFilter env out_dmp in_dmp cam (with_export_flags maps cross csv p) r
           = cuda_depthSimMapUpscaleAndFilter env out_dmp in_dmp cam p r)
      \<and> (\<forall>dmp cam r.
           cuda_depthSimMapComputePixSize env dmp cam (with_export_flags maps cross csv p) r
           = cuda_depthSimMapComputePixSize env dmp cam p r)
      \<and> (\<forall>vol sgm nm rcam tcam rg r.
           cuda_volumeRefineSimilarity env vol sgm nm rcam tcam (with_export_flags maps cross csv p) rg r
           = cuda_volumeRefineSimilarity env vol sgm nm rcam tcam p rg r)
      \<and> (\<forall>out_dmp sgm vol cam r.
           cuda_volumeRefineBestDepth env out_dmp sgm vol cam (with_export_flags maps cross csv p) r
           = cuda_volumeRefineBestDepth env out_dmp sgm vol cam p r)
      \<and> (\<forall>out_dmp var tmp sgm refined cam r.
           cuda_depthSimMapOptimizeGradientDescent env out_dmp var tmp sgm refined cam
             (with_export_flags maps cross csv p) r
           = cuda_depthSimMapOptimizeGradientDescent env out_dmp var tmp sgm refined cam p r))"

definition export_variant :: "bool \<Rightarrow> bool \<Rightarrow> bool \<Rightarrow> Refine \<Rightarrow> Refine \<Rightarrow> bool" where
  \<comment> \<open>\<open>t\<close> is \<open>s\<close> with the given export flags: the same buffers, the same other parameters\<close>
  "export_variant maps cross csv s t \<longleftrightarrow>
     refineParams t = with_export_flags maps cross csv (refineParams s) \<and> buffers t = buffers s"

text \<open>
  The two kernels that fill the similarity volume, as the specification describes them.
\<close>

definition cuda_volumeRefineSimilarity_spec :: "(nat \<Rightarrow> real) \<Rightarrow> TSimRefine list \<Rightarrow> TSimRefine list" where
  \<comment> \<open>Modelled from the spec: the kernel \<open>cuda_volumeRefineSimilarity\<close> is not in the file.
      "Compute a per-pixel, per-depth-hypothesis matching score, invert/filter the raw cost,
      and add it into the shared volume": every element of the volume becomes the sum, in
      the arithmetic of \<open>float\<close>, of itself and the score of the target camera at that
      element; the score does not depend on the contents of the volume.\<close>
  "cuda_volumeRefineSimilarity_spec score xs = map (\<lambda>i. fl32 (xs ! i + score i)) [0..<length xs]"


definition tileScore ::
  "'cam env
    \<Rightarrow> ((CudaSize2, float2) CudaDeviceMemoryPitched \<Rightarrow> (CudaSize2, float3) CudaDeviceMemoryPitched option
        \<Rightarrow> 'cam \<Rightarrow> 'cam \<Rightarrow> RefineParams \<Rightarrow> Range \<Rightarrow> ROI \<Rightarrow> nat \<Rightarrow> real)
    \<Rightarrow> Tile \<Rightarrow> Refine \<Rightarrow> int \<Rightarrow> nat \<Rightarrow> real" where
  \<comment> \<open>the score of the target camera \<open>tc\<close> at an element of the volume, for the arguments
      that \<open>refineAndFuseDepthSimMap\<close> passes to the kernel\<close>
  "tileScore env score tile s tc =
     score (sgmDepthPixSizeMap_dmp s)
       (if useNormalMap (refineParams s) then Some (normalMap_dmp s) else None)
       (requestCamera env (rc tile) (scale (refineParams s)))
       (requestCamera env tc (scale (refineParams s)))
       (refineParams s)
       \<lparr>range_begin = 0, range_end = z (getSize (volumeRefineSim_dmp s))\<rparr>
       (downscaleROI env (roi tile) (int32 (scale (refineParams s) * stepXY (refineParams s))))"







section \<open>An environment to evaluate the model on\<close>

text \<open>
  A device on which every allocation succeeds, with rows padded to 512 bytes; ceiling
  division for the host helpers; cameras named by their index; kernels that are simple
  functions of their inputs.
\<close>

fun sizeof :: "elem \<Rightarrow> nat" where
  "sizeof Float = 4"
| "sizeof Float2 = 8"
| "sizeof Float3 = 12"
| "sizeof SimRefine = 4"

definition ceilDiv :: "int \<Rightarrow> int \<Rightarrow> int" where
  "ceilDiv x y = (x + y - 1) div y"

fun sampleBytesUnpadded :: "elem \<Rightarrow> int list \<Rightarrow> nat" where
  "sampleBytesUnpadded t [] = 0"
| "sampleBytesUnpadded t (w # ds) = sizeof t * nat w * prod_list (map nat ds)"

fun sampleBytesPadded :: "elem \<Rightarrow> int list \<Rightarrow> nat" where
  "sampleBytesPadded t [] = 0"
| "sampleBytesPadded t (w # ds) = (sizeof t * nat w + 511) div 512 * 512 * prod_list (map nat ds)"

definition sampleScore :: "int \<Rightarrow> nat \<Rightarrow> real" where
  \<comment> \<open>the score of a target camera at a voxel: its index, but for two cameras of large
      scores of opposite sign\<close>
  "sampleScore tcam i =
     (if tcam = 3 then 16777216 else if tcam = 4 then - 16777216 else of_int tcam)"

definition sampleEnv :: "int env" where
  "sampleEnv =
     \<lparr>divideRoundUp = ceilDiv,
      downscaleROI = (\<lambda>r f.
        \<lparr>roi_x = \<lparr>range_begin = range_begin (roi_x r) div f, range_end = ceilDiv (range_end (roi_x r)) f\<rparr>,
         roi_y = \<lparr>range_begin = range_begin (roi_y r) div f, range_end = ceilDiv (range_end (roi_y r)) f\<rparr>\<rparr>),
      deviceMalloc = (\<lambda>t ds. True),
      getBytesPadded = sampleBytesPadded,
      getBytesUnpadded = sampleBytesUnpadded,
      requestCamera = (\<lambda>cam sc. cam),
      cuda_depthSimMapUpscaleAndFilter = (\<lambda>out_dmp in_dmp cam p r.
        case getBuffer in_dmp of Data xs \<Rightarrow> xs | _ \<Rightarrow> []),
      cuda_depthSimMapComputePixSize = (\<lambda>dmp cam p r.
        case getBuffer dmp of Data xs \<Rightarrow> map (\<lambda>v. (fst v, of_int (scale p))) xs | _ \<Rightarrow> []),
      cuda_normalMapUpscale = (\<lambda>out_dmp in_dmp r.
        case getBuffer in_dmp of Data xs \<Rightarrow> xs | _ \<Rightarrow> []),
      cuda_volumeInitialize = (\<lambda>vol v.
        replicate (nat (prod_list (extents3 (getSize vol)))) v),
      cuda_volumeRefineSimilarity = (\<lambda>vol sgm nm rcam tcam p rg r.
        case getBuffer vol of
          Data xs \<Rightarrow> cuda_volumeRefineSimilarity_spec (sampleScore tcam) xs
        | _ \<Rightarrow> []),
      cuda_volumeRefineBestDepth = (\<lambda>out_dmp sgm vol cam p r.
        case getBuffer sgm of Data xs \<Rightarrow> map (\<lambda>v. (fst v + 1, 7)) xs | _ \<Rightarrow> []),
      cuda_depthSimMapOptimizeGradientDescent = (\<lambda>out_dmp var tmp sgm refined cam p r.
        case getBuffer refined of
          Data xs \<Rightarrow> (map (\<lambda>v. (fst v + 2, snd v)) xs, map fst xs, map snd xs)
        | _ \<Rightarrow> ([], [], []))\<rparr>"

definition sampleTile :: Tile where
  "sampleTile =
     \<lparr>rc = 0,
      roi = \<lparr>roi_x = \<lparr>range_begin = 0, range_end = 4\<rparr>, roi_y = \<lparr>range_begin = 0, range_end = 2\<rparr>\<rparr>,
      refineTCams = [1, 2], nbTiles = 1\<rparr>"

definition sampleTileParams :: TileParams where
  "sampleTileParams = \<lparr>bufferWidth = 4, bufferHeight = 2\<rparr>"

definition sampleParams :: RefineParams where
  "sampleParams =
     \<lparr>scale = 1, stepXY = 2, halfNbDepths = 1, useRefineFuse = True, useColorOptimization = True,
      useNormalMap = False, optimizationNbIterations = 100,
      exportIntermediateDepthSimMaps = False, exportIntermediateCrossVolumes = False,
      exportIntermediateVolume9pCsv = False\<rparr>"

definition sampleCamera :: IntrinsicsScaleOffset where
  \<comment> \<open>a 1920 by 1080 image, a focal length of 1500 pixels, no offset\<close>
  "sampleCamera = \<lparr>m_w = 1920, m_h = 1080, m_scale = (1500, 1500), m_offset = (0, 0)\<rparr>"

definition sampleSgmDepthSimMap :: "(CudaSize2, float2) CudaDeviceMemoryPitched" where
  "sampleSgmDepthSimMap = \<lparr>getSize = (2, 1), getBuffer = Data [(10, 20), (30, 40)]\<rparr>"


section \<open>Rounding to binary64 is monotone\<close>


lemma roundHalfEven_of_int [simp]: "roundHalfEven (of_int n) = n"
  by (simp add: roundHalfEven_def Let_def)




lemma ilogb_bounds:
  assumes "0 < q"
  shows "2 powi ilogb q \<le> q" and "q < 2 powi (ilogb q + 1)"
proof -
  show "2 powi ilogb q \<le> q"
  proof (cases "1 \<le> q")
    case True
    then have n: "0 < \<lfloor>q\<rfloor>" by simp
    from bitlen_bounds [OF n] have "2 ^ nat (bitlen \<lfloor>q\<rfloor> - 1) \<le> \<lfloor>q\<rfloor>" by simp
    then have "(2::real) ^ nat (bitlen \<lfloor>q\<rfloor> - 1) \<le> of_int \<lfloor>q\<rfloor>"
      by (metis of_int_le_iff of_int_numeral of_int_power)
    also have "\<dots> \<le> q" by simp
    finally have "(2::real) ^ nat (bitlen \<lfloor>q\<rfloor> - 1) \<le> q" .
    moreover from n have "1 \<le> bitlen \<lfloor>q\<rfloor>" by (simp add: bitlen_alt_def)
    ultimately show ?thesis using True
      by (simp add: ilogb_def power_int_def)
  next
    case False
    with assms have q1: "q < 1" by simp
    let ?m = "\<lceil>1 / q\<rceil>"
    from q1 assms have "1 < 1 / q" by simp
    then have m: "0 < ?m - 1" by (simp add: less_ceiling_iff)
    from bitlen_bounds [OF m] have "?m - 1 < 2 ^ nat (bitlen (?m - 1))" by simp
    then have "?m \<le> 2 ^ nat (bitlen (?m - 1))" by simp
    then have "of_int ?m \<le> (2::real) ^ nat (bitlen (?m - 1))"
      by (metis of_int_le_iff of_int_numeral of_int_power)
    moreover have "1 / q \<le> of_int ?m" by simp
    ultimately have "1 / q \<le> (2::real) ^ nat (bitlen (?m - 1))" by linarith
    with assms have "1 / (2::real) ^ nat (bitlen (?m - 1)) \<le> q"
      by (simp add: field_simps)
    moreover from m have "1 \<le> bitlen (?m - 1)" by (simp add: bitlen_alt_def)
    ultimately show ?thesis using False
      by (simp add: ilogb_def power_int_def field_simps)
  qed
  show "q < 2 powi (ilogb q + 1)"
  proof (cases "1 \<le> q")
    case True
    then have n: "0 < \<lfloor>q\<rfloor>" by simp
    from bitlen_bounds [OF n] have "\<lfloor>q\<rfloor> + 1 \<le> 2 ^ nat (bitlen \<lfloor>q\<rfloor>)" by simp
    then have "of_int (\<lfloor>q\<rfloor> + 1) \<le> (2::real) ^ nat (bitlen \<lfloor>q\<rfloor>)"
      by (metis of_int_le_iff of_int_numeral of_int_power)
    moreover have "q < of_int (\<lfloor>q\<rfloor> + 1)" by simp
    ultimately have "q < (2::real) ^ nat (bitlen \<lfloor>q\<rfloor>)" by linarith
    moreover have "0 \<le> bitlen \<lfloor>q\<rfloor>" by (rule bitlen_nonneg)
    ultimately show ?thesis using True
      by (simp add: ilogb_def power_int_def)
  next
    case False
    with assms have q1: "q < 1" by simp
    let ?m = "\<lceil>1 / q\<rceil>"
    from q1 assms have "1 < 1 / q" by simp
    then have m: "0 < ?m - 1" by (simp add: less_ceiling_iff)
    then have b1: "1 \<le> bitlen (?m - 1)" by (simp add: bitlen_alt_def)
    from bitlen_bounds [OF m] have "2 ^ nat (bitlen (?m - 1) - 1) \<le> ?m - 1" by simp
    then have "(2::real) ^ nat (bitlen (?m - 1) - 1) \<le> of_int (?m - 1)"
      by (metis of_int_le_iff of_int_numeral of_int_power)
    moreover have "of_int (?m - 1) < 1 / q" by (simp add: ceiling_correct)
    ultimately have "(2::real) ^ nat (bitlen (?m - 1) - 1) < 1 / q" by linarith
    with assms have "q < 1 / (2::real) ^ nat (bitlen (?m - 1) - 1)"
      by (simp add: field_simps)
    moreover from b1 have "- bitlen (?m - 1) + 1 \<le> 0" by simp
    ultimately show ?thesis using False b1
      by (simp add: ilogb_def power_int_def field_simps nat_diff_distrib)
  qed
qed



lemma fl64_pos:
  "0 < q \<Longrightarrow> fl64 q = of_int (roundHalfEven (q / 2 powi ulpExponent q)) * 2 powi ulpExponent q"
  by (simp add: fl64_def)






lemma fl64_minus: "fl64 (- q) = - fl64 q"
  by (simp add: fl64_def ulpExponent_def)



section \<open>The relative error of rounding to binary64\<close>

lemma roundHalfEven_error: "\<bar>of_int (roundHalfEven x) - x\<bar> \<le> 1 / 2"
  by (auto simp add: roundHalfEven_def Let_def abs_le_iff)

lemma fl64_error_pos:
  assumes "2 powi (- 1022) \<le> x"
  shows "\<bar>fl64 x - x\<bar> \<le> x * 2 powi (- 53)"
proof -
  have "(0::real) < 2 powi (- 1022)" by simp
  with assms have pos: "0 < x" by linarith
  let ?k = "ilogb x"
  have k: "- 1022 \<le> ?k"
  proof (rule ccontr)
    assume "\<not> - 1022 \<le> ?k"
    then have "?k + 1 \<le> - 1022" by simp
    then have "(2::real) powi (?k + 1) \<le> 2 powi (- 1022)"
      by (intro power_int_increasing) simp_all
    with assms ilogb_bounds(2) [OF pos] show False by linarith
  qed
  with pos have e: "ulpExponent x = ?k - 52" by (simp add: ulpExponent_def)
  let ?e = "?k - 52"
  let ?y = "x / 2 powi ?e"
  have epos: "(0::real) < 2 powi ?e" by simp
  have "fl64 x - x = (of_int (roundHalfEven ?y) - ?y) * 2 powi ?e"
    using pos by (simp add: fl64_pos e field_simps)
  then have "\<bar>fl64 x - x\<bar> = \<bar>of_int (roundHalfEven ?y) - ?y\<bar> * 2 powi ?e"
    by (simp add: abs_mult)
  also have "\<dots> \<le> 1 / 2 * 2 powi ?e"
    using roundHalfEven_error [of ?y] epos by (intro mult_right_mono) simp_all
  also have "\<dots> = 2 powi ?k * 2 powi (- 53)"
  proof -
    have "(2::real) powi ?e = 2 powi (?k + (- 52))" by simp
    also have "\<dots> = 2 powi ?k * 2 powi (- 52)" by (rule power_int_add) simp
    finally show ?thesis by simp
  qed
  also have "\<dots> \<le> x * 2 powi (- 53)"
    using ilogb_bounds(1) [OF pos] by (intro mult_right_mono) simp_all
  finally show ?thesis .
qed

lemma fl64_error:
  assumes "in_range x"
  shows "\<bar>fl64 x - x\<bar> \<le> \<bar>x\<bar> * 2 powi (- 53)"
proof -
  consider "x = 0" | "2 powi (- 1022) \<le> x" | "2 powi (- 1022) \<le> - x"
    using assms by (auto simp add: in_range_def abs_if split: if_splits)
  then show ?thesis
  proof cases
    case 1
    then show ?thesis by (simp add: fl64_def)
  next
    case 2
    have "(0::real) < 2 powi (- 1022)" by simp
    with 2 have "0 < x" by linarith
    with fl64_error_pos [OF 2] show ?thesis by simp
  next
    case 3
    have "(0::real) < 2 powi (- 1022)" by simp
    with 3 have "x < 0" by linarith
    with fl64_error_pos [OF 3] show ?thesis by (simp add: fl64_minus abs_minus_commute)
  qed
qed

lemma fl64_step:
  assumes "in_range x" and "\<bar>x\<bar> \<le> B"
  shows "\<bar>fl64 x - x\<bar> \<le> 2 powi (- 53) * B"
proof -
  have "\<bar>fl64 x - x\<bar> \<le> \<bar>x\<bar> * 2 powi (- 53)" using assms(1) by (rule fl64_error)
  also have "\<dots> \<le> B * 2 powi (- 53)" using assms(2) by (intro mult_right_mono) simp_all
  finally show ?thesis by (simp add: mult.commute)
qed

lemma eighth: "0 \<le> Q \<Longrightarrow> 2 powi (- 53) * Q \<le> Q / (8::real)"
proof -
  assume "0 \<le> Q"
  moreover have "(2::real) powi (- 53) \<le> 1 / 8" by simp
  ultimately have "2 powi (- 53) * Q \<le> 1 / 8 * Q" by (simp add: mult_right_mono)
  then show ?thesis by simp
qed

lemma ima_roundtrip_error:
  fixes p c s :: real
  defines "a \<equiv> fl64 (p - c)"
  defines "b \<equiv> fl64 (a / s)"
  defines "m \<equiv> fl64 (b * s)"
  assumes s: "s \<noteq> 0"
    and ra: "in_range (p - c)" and rb: "in_range (a / s)" and rm: "in_range (b * s)"
    and rd: "in_range (m + c)"
  shows "\<bar>fl64 (m + c) - p\<bar> \<le> 2 powi (- 50) * (\<bar>p\<bar> + \<bar>c\<bar>)"
proof -
  let ?u = "(2::real) powi (- 53)"
  define d where "d = p - c"
  define X where "X = \<bar>d\<bar>"
  define Y where "Y = ?u * X"
  define bs where "bs = b * s"
  define mc where "mc = m + c"
  have X0: "0 \<le> X" by (simp add: X_def)
  have Y0: "0 \<le> Y" by (simp add: Y_def X0)
  have Y8: "Y \<le> X / 8" unfolding Y_def using X0 by (rule eighth)
  have uY: "?u * Y \<le> Y / 8" using Y0 by (rule eighth)
  have "\<bar>fl64 d - d\<bar> \<le> ?u * X"
    using ra by (intro fl64_step) (simp_all add: d_def X_def)
  then have 1: "\<bar>a - d\<bar> \<le> Y" by (simp add: a_def d_def Y_def)
  with Y8 have a: "\<bar>a\<bar> \<le> 9 / 8 * X" unfolding X_def by linarith
  have "\<bar>a\<bar> / \<bar>s\<bar> \<le> 9 / 8 * X / \<bar>s\<bar>"
    using a by (rule divide_right_mono) simp
  then have "\<bar>a / s\<bar> \<le> 9 / 8 * X / \<bar>s\<bar>" by simp
  with rb have "\<bar>b - a / s\<bar> \<le> ?u * (9 / 8 * X / \<bar>s\<bar>)"
    unfolding b_def by (rule fl64_step)
  then have "\<bar>b - a / s\<bar> * \<bar>s\<bar> \<le> ?u * (9 / 8 * X / \<bar>s\<bar>) * \<bar>s\<bar>"
    by (intro mult_right_mono) simp_all
  moreover have "\<bar>b - a / s\<bar> * \<bar>s\<bar> = \<bar>bs - a\<bar>"
    using s by (simp add: abs_mult [symmetric] left_diff_distrib bs_def)
  moreover have "?u * (9 / 8 * X / \<bar>s\<bar>) * \<bar>s\<bar> = 9 / 8 * Y"
    using s by (simp add: Y_def)
  ultimately have 2: "\<bar>bs - a\<bar> \<le> 9 / 8 * Y" by simp
  with a Y8 have b: "\<bar>bs\<bar> \<le> 81 / 64 * X" by linarith
  with rm have "\<bar>m - bs\<bar> \<le> ?u * (81 / 64 * X)"
    unfolding m_def bs_def by (rule fl64_step)
  then have 3: "\<bar>m - bs\<bar> \<le> 81 / 64 * Y" by (simp add: Y_def)
  from 1 2 3 have 4: "\<bar>m - d\<bar> \<le> 217 / 64 * Y" by linarith
  have mcp: "mc - p = m - d" by (simp add: mc_def d_def)
  with 4 have "\<bar>mc\<bar> \<le> \<bar>p\<bar> + 217 / 64 * Y" by linarith
  with rd have "\<bar>fl64 mc - mc\<bar> \<le> ?u * (\<bar>p\<bar> + 217 / 64 * Y)"
    unfolding mc_def by (rule fl64_step)
  also have "\<dots> = ?u * \<bar>p\<bar> + 217 / 64 * (?u * Y)" by (simp add: algebra_simps)
  also have "\<dots> \<le> ?u * \<bar>p\<bar> + 217 / 64 * (Y / 8)" using uY by simp
  finally have 5: "\<bar>fl64 mc - mc\<bar> \<le> ?u * \<bar>p\<bar> + 217 / 512 * Y" by simp
  have "X \<le> \<bar>p\<bar> + \<bar>c\<bar>" by (simp add: X_def d_def)
  then have "?u * X \<le> ?u * (\<bar>p\<bar> + \<bar>c\<bar>)" by (intro mult_left_mono) simp_all
  then have Yb: "Y \<le> ?u * \<bar>p\<bar> + ?u * \<bar>c\<bar>" by (simp add: Y_def algebra_simps)
  define P where "P = ?u * \<bar>p\<bar>"
  define C where "C = ?u * \<bar>c\<bar>"
  have P0: "0 \<le> P" and C0: "0 \<le> C" by (simp_all add: P_def C_def)
  have "fl64 mc - p = (fl64 mc - mc) + (m - d)" using mcp by simp
  then have "\<bar>fl64 mc - p\<bar> \<le> \<bar>fl64 mc - mc\<bar> + \<bar>m - d\<bar>"
    by (simp only: abs_triangle_ineq)
  also have "\<dots> \<le> (P + 217 / 512 * Y) + 217 / 64 * Y"
    using 5 4 unfolding P_def by (rule add_mono)
  also have "\<dots> \<le> 8 * (P + C)"
    using Yb P0 C0 Y0 unfolding P_def [symmetric] C_def [symmetric] by simp
  finally have "\<bar>fl64 mc - p\<bar> \<le> 8 * (P + C)" .
  also
  have "8 * (P + C) = 2 powi (- 50) * (\<bar>p\<bar> + \<bar>c\<bar>)" by (simp add: P_def C_def algebra_simps)
  finally show ?thesis by (simp add: mc_def)
qed

lemma error_sum:
  "(u::real) * (217 / 64 * X + 9 / 8 * C) = u * (81 / 64 * X + C / 8) + u * (9 / 8 * X + C) + u * X"
  by (simp add: algebra_simps)

lemma error_total:
  "(u::real) * ((729 / 512 * X + 9 / 64 * C) / S) + u * (217 / 64 * X + 9 / 8 * C) / S
     = (u * (2465 / 512 * X + 81 / 64 * C)) / S"
  by (simp add: add_divide_distrib algebra_simps)

lemma error_scale: "(u::real) * (8 * X + 8 * C) / S = (8 * u) * (X / S + C / S)"
  by (simp add: add_divide_distrib algebra_simps)

lemma cam_roundtrip_error:
  fixes p c s :: real
  defines "a \<equiv> fl64 (p * s)"
  defines "b \<equiv> fl64 (a + c)"
  defines "d \<equiv> fl64 (b - c)"
  assumes s: "s \<noteq> 0"
    and ra: "in_range (p * s)" and rb: "in_range (a + c)" and rd: "in_range (b - c)"
    and re: "in_range (d / s)"
  shows "\<bar>fl64 (d / s) - p\<bar> \<le> 2 powi (- 50) * (\<bar>p\<bar> + \<bar>c\<bar> / \<bar>s\<bar>)"
proof -
  let ?u = "(2::real) powi (- 53)"
  define q where "q = p * s"
  define X where "X = \<bar>q\<bar>"
  define C where "C = \<bar>c\<bar>"
  define ac where "ac = a + c"
  define bc where "bc = b - c"
  define e where "e = fl64 (d / s)"
  define S where "S = \<bar>s\<bar>"
  have X0: "0 \<le> X" and C0: "0 \<le> C" and S0: "0 < S" using s by (simp_all add: X_def C_def S_def)
  have r1: "\<bar>a - q\<bar> \<le> ?u * X"
    unfolding a_def q_def [symmetric] using ra by (intro fl64_step) (simp_all add: q_def X_def)
  have "?u * X \<le> X / 8" using X0 by (rule eighth)
  with r1 have a: "\<bar>a\<bar> \<le> 9 / 8 * X" unfolding X_def by linarith
  then have "\<bar>ac\<bar> \<le> 9 / 8 * X + C" unfolding ac_def C_def by linarith
  with rb have r2: "\<bar>b - ac\<bar> \<le> ?u * (9 / 8 * X + C)"
    unfolding b_def ac_def by (rule fl64_step)
  have "?u * (9 / 8 * X + C) \<le> (9 / 8 * X + C) / 8" using X0 C0 by (intro eighth) simp
  with r2 have r2': "\<bar>b - ac\<bar> \<le> (9 / 8 * X + C) / 8" by linarith
  have bca: "bc - a = b - ac" by (simp add: bc_def ac_def)
  then have "bc = a + (b - ac)" by simp
  then have "\<bar>bc\<bar> \<le> \<bar>a\<bar> + \<bar>b - ac\<bar>" by (simp only: abs_triangle_ineq)
  also have "\<dots> \<le> 9 / 8 * X + (9 / 8 * X + C) / 8" using a r2' by (rule add_mono)
  also have "\<dots> = 81 / 64 * X + C / 8" by (simp add: add_divide_distrib)
  finally have "\<bar>bc\<bar> \<le> 81 / 64 * X + C / 8" .
  with rd have r3: "\<bar>d - bc\<bar> \<le> ?u * (81 / 64 * X + C / 8)"
    unfolding d_def bc_def by (rule fl64_step)
  define E where "E = ?u * (217 / 64 * X + 9 / 8 * C)"
  have Esum: "E = ?u * (81 / 64 * X + C / 8) + ?u * (9 / 8 * X + C) + ?u * X"
    unfolding E_def by (rule error_sum)
  have "d - q = (d - bc) + (b - ac) + (a - q)" using bca by simp
  then have "\<bar>d - q\<bar> \<le> \<bar>d - bc\<bar> + \<bar>b - ac\<bar> + \<bar>a - q\<bar>"
    by (simp only: abs_triangle_ineq3 abs_triangle_ineq order_trans [OF abs_triangle_ineq add_right_mono [OF abs_triangle_ineq]])
  also have "\<dots> \<le> E" unfolding Esum using r1 r2 r3 by (intro add_mono)
  finally have r4: "\<bar>d - q\<bar> \<le> E" .
  have E8: "E \<le> (217 / 64 * X + 9 / 8 * C) / 8"
    unfolding E_def using X0 C0 by (intro eighth) simp
  have "d = q + (d - q)" by simp
  then have "\<bar>d\<bar> \<le> \<bar>q\<bar> + \<bar>d - q\<bar>" by (simp only: abs_triangle_ineq)
  also have "\<dots> \<le> X + (217 / 64 * X + 9 / 8 * C) / 8"
    using r4 E8 unfolding X_def by (intro add_mono) simp_all
  also have "\<dots> = 729 / 512 * X + 9 / 64 * C" by (simp add: add_divide_distrib)
  finally have dD: "\<bar>d\<bar> \<le> 729 / 512 * X + 9 / 64 * C" .
  have "\<bar>d\<bar> / S \<le> (729 / 512 * X + 9 / 64 * C) / S"
    using dD by (rule divide_right_mono) (use S0 in simp)
  then have "\<bar>d / s\<bar> \<le> (729 / 512 * X + 9 / 64 * C) / S" by (simp add: S_def)
  with re have r5: "\<bar>e - d / s\<bar> \<le> ?u * ((729 / 512 * X + 9 / 64 * C) / S)"
    unfolding e_def by (rule fl64_step)
  have "d / s - p = (d - q) / s" using s by (simp add: q_def diff_divide_distrib)
  then have "\<bar>d / s - p\<bar> = \<bar>d - q\<bar> / S" by (simp add: S_def)
  also have "\<dots> \<le> E / S" using r4 by (rule divide_right_mono) (use S0 in simp)
  finally have r6: "\<bar>d / s - p\<bar> \<le> E / S" .
  have "e - p = (e - d / s) + (d / s - p)" by simp
  then have "\<bar>e - p\<bar> \<le> \<bar>e - d / s\<bar> + \<bar>d / s - p\<bar>" by (simp only: abs_triangle_ineq)
  also have "\<dots> \<le> ?u * ((729 / 512 * X + 9 / 64 * C) / S) + E / S"
    using r5 r6 by (rule add_mono)
  also have "\<dots> = (?u * (2465 / 512 * X + 81 / 64 * C)) / S"
    unfolding E_def by (rule error_total)
  also have "\<dots> \<le> (?u * (8 * X + 8 * C)) / S"
    using X0 C0 S0 by (intro divide_right_mono mult_left_mono add_mono) simp_all
  also have "\<dots> = (8 * ?u) * (X / S + C / S)" by (rule error_scale)
  also have "8 * ?u = 2 powi (- 50)" by simp
  also have "X / S = \<bar>p\<bar>" using s by (simp add: X_def S_def q_def abs_mult)
  finally show ?thesis by (simp add: e_def C_def S_def)
qed


section \<open>Rounding to binary32\<close>








section \<open>Sums in binary32\<close>










section \<open>The constructor\<close>



lemma foldl_seqE_Inl:
  "foldl (\<lambda>r step. case r of Inl e \<Rightarrow> Inl e | Inr t \<Rightarrow> step t) (Inl e) steps = Inl e"
  by (induction steps) simp_all

lemma seqE_Nil: "seqE [] s = Inr s"
  by (simp add: seqE_def)

lemma seqE_Cons: "seqE (f # fs) s = (case f s of Inl e \<Rightarrow> Inl e | Inr t \<Rightarrow> seqE fs t)"
  by (cases "f s") (simp_all add: seqE_def foldl_seqE_Inl)

lemma allocate_bind:
  "(case allocate env t ds upd s of Inl e \<Rightarrow> Inl e | Inr x \<Rightarrow> f x)
   = (if deviceMalloc env t ds then f (call (Allocate t ds) (upd s)) else Inl CudaAllocationError)"
  by (simp add: allocate_def)

lemma skip_bind: "(case skip s of Inl e \<Rightarrow> Inl e | Inr x \<Rightarrow> f x) = f s"
  by (simp add: skip_def)

lemma case_if_Inl:
  "(case (if c then a else Inl e) of Inl e' \<Rightarrow> Inl e' | Inr x \<Rightarrow> f x)
   = (if c then (case a of Inl e' \<Rightarrow> Inl e' | Inr x \<Rightarrow> f x) else Inl e)"
  by simp

lemma if_Inl_eq_Inr: "((if c then a else Inl e) = Inr s) \<longleftrightarrow> c \<and> a = Inr s"
  by simp

lemma Refine_Refine_Inr:
  assumes "Refine_Refine env tp rp = Inr s"
  shows "s = constructed env tp rp"
proof (cases "useNormalMap rp"; cases "useColorOptimization rp")
  assume "useNormalMap rp" "useColorOptimization rp"
  with assms show ?thesis
    by (simp add: Refine_Refine_def constructed_def members_initial_def Let_def seqE_Cons seqE_Nil
        allocate_bind skip_bind case_if_Inl if_Inl_eq_Inr call_def)
next
  assume "useNormalMap rp" "\<not> useColorOptimization rp"
  with assms show ?thesis
    by (simp add: Refine_Refine_def constructed_def members_initial_def Let_def seqE_Cons seqE_Nil
        allocate_bind skip_bind case_if_Inl if_Inl_eq_Inr call_def)
next
  assume "\<not> useNormalMap rp" "useColorOptimization rp"
  with assms show ?thesis
    by (simp add: Refine_Refine_def constructed_def members_initial_def Let_def seqE_Cons seqE_Nil
        allocate_bind skip_bind case_if_Inl if_Inl_eq_Inr call_def)
next
  assume "\<not> useNormalMap rp" "\<not> useColorOptimization rp"
  with assms show ?thesis
    by (simp add: Refine_Refine_def constructed_def members_initial_def Let_def seqE_Cons seqE_Nil
        allocate_bind skip_bind case_if_Inl if_Inl_eq_Inr call_def)
qed

lemma Refine_Refine_requested:
  assumes "\<forall>t ds. Allocate t ds \<in> set (calls (constructed env tp rp)) \<longrightarrow> deviceMalloc env t ds"
  shows "Refine_Refine env tp rp = Inr (constructed env tp rp)"
proof (cases "useNormalMap rp"; cases "useColorOptimization rp")
  assume "useNormalMap rp" "useColorOptimization rp"
  with assms show ?thesis
    by (simp add: Refine_Refine_def constructed_def members_initial_def Let_def seqE_Cons seqE_Nil
        allocate_bind skip_bind case_if_Inl call_def)
next
  assume "useNormalMap rp" "\<not> useColorOptimization rp"
  with assms show ?thesis
    by (simp add: Refine_Refine_def constructed_def members_initial_def Let_def seqE_Cons seqE_Nil
        allocate_bind skip_bind case_if_Inl call_def)
next
  assume "\<not> useNormalMap rp" "useColorOptimization rp"
  with assms show ?thesis
    by (simp add: Refine_Refine_def constructed_def members_initial_def Let_def seqE_Cons seqE_Nil
        allocate_bind skip_bind case_if_Inl call_def)
next
  assume "\<not> useNormalMap rp" "\<not> useColorOptimization rp"
  with assms show ?thesis
    by (simp add: Refine_Refine_def constructed_def members_initial_def Let_def seqE_Cons seqE_Nil
        allocate_bind skip_bind case_if_Inl call_def)
qed

lemma Refine_Refine_Inr_requested:
  assumes "Refine_Refine env tp rp = Inr s"
  shows "\<forall>t ds. Allocate t ds \<in> set (calls (constructed env tp rp)) \<longrightarrow> deviceMalloc env t ds"
proof (cases "useNormalMap rp"; cases "useColorOptimization rp")
  assume "useNormalMap rp" "useColorOptimization rp"
  with assms show ?thesis
    by (auto simp add: Refine_Refine_def constructed_def members_initial_def Let_def seqE_Cons seqE_Nil
        allocate_bind skip_bind case_if_Inl if_Inl_eq_Inr call_def)
next
  assume "useNormalMap rp" "\<not> useColorOptimization rp"
  with assms show ?thesis
    by (auto simp add: Refine_Refine_def constructed_def members_initial_def Let_def seqE_Cons seqE_Nil
        allocate_bind skip_bind case_if_Inl if_Inl_eq_Inr call_def)
next
  assume "\<not> useNormalMap rp" "useColorOptimization rp"
  with assms show ?thesis
    by (auto simp add: Refine_Refine_def constructed_def members_initial_def Let_def seqE_Cons seqE_Nil
        allocate_bind skip_bind case_if_Inl if_Inl_eq_Inr call_def)
next
  assume "\<not> useNormalMap rp" "\<not> useColorOptimization rp"
  with assms show ?thesis
    by (auto simp add: Refine_Refine_def constructed_def members_initial_def Let_def seqE_Cons seqE_Nil
        allocate_bind skip_bind case_if_Inl if_Inl_eq_Inr call_def)
qed

lemma Refine_Refine_granted:
  assumes "\<forall>t ds. deviceMalloc env t ds"
  shows "Refine_Refine env tp rp = Inr (constructed env tp rp)"
  using assms by (intro Refine_Refine_requested) simp

lemma constructed_calls_allocate:
  "\<forall>c \<in> set (calls (constructed env tp rp)). \<exists>t ds. c = Allocate t ds"
  by (auto simp add: constructed_def Let_def)


section \<open>Refining a tile keeps the shape of the engine\<close>

lemma step_okI:
  assumes "same_shape s s'" and "calls s' = calls s @ cs" and "list_all (permitted s) cs"
  shows "step_ok s s'"
  using assms by (simp add: step_ok_def new_calls_def)

lemma step_okD:
  assumes "step_ok s s'"
  shows "same_shape s s'" and "calls s' = calls s @ new_calls s s'"
    and "list_all (permitted s) (new_calls s s')"
  using assms by (simp_all add: step_ok_def)

lemma permitted_same_shape: "same_shape s s' \<Longrightarrow> permitted s' = permitted s"
  by (rule ext) (simp add: permitted_def same_shape_def split: call.splits)

lemma same_shape_refl: "same_shape s s"
  by (simp add: same_shape_def)

lemma same_shape_trans: "same_shape s t \<Longrightarrow> same_shape t u \<Longrightarrow> same_shape s u"
  by (simp add: same_shape_def)

lemma step_ok_refl: "step_ok s s"
  by (rule step_okI [where cs = "[]"]) (simp_all add: same_shape_refl)

lemma step_ok_trans:
  assumes "step_ok s t" and "step_ok t u"
  shows "step_ok s u"
proof (rule step_okI)
  from assms show "same_shape s u"
    by (blast intro: same_shape_trans dest: step_okD(1))
  from assms have "calls u = calls t @ new_calls t u" and "calls t = calls s @ new_calls s t"
    by (simp_all only: step_okD(2) [symmetric])
  then show "calls u = calls s @ (new_calls s t @ new_calls t u)"
    by simp
  from assms have "permitted t = permitted s"
    by (intro permitted_same_shape step_okD(1))
  with assms show "list_all (permitted s) (new_calls s t @ new_calls t u)"
    using step_okD(3) [of s t] step_okD(3) [of t u] by simp
qed

lemma step_ok_call:
  assumes "permitted s c" and "same_shape s t" and "calls t = calls s"
  shows "step_ok s (call c t)"
  using assms by (intro step_okI [where cs = "[c]"]) (simp_all add: call_def same_shape_def)

lemma step_ok_exportVolumeInformation: "step_ok s (exportVolumeInformation tile name s)"
proof -
  let ?x = "if nbTiles tile > 1 then range_begin (roi_x (roi tile)) else - 1"
  let ?y = "if nbTiles tile > 1 then range_begin (roi_y (roi tile)) else - 1"
  let ?cs = "(if exportIntermediateCrossVolumes (refineParams s)
              then [ExportSimilarityVolumeCross name ?x ?y] else [])
           @ (if exportIntermediateVolume9pCsv (refineParams s)
              then [ExportSimilaritySamplesCSV name ?x ?y] else [])"
  show ?thesis
    by (rule step_okI [where cs = ?cs])
      (simp_all add: exportVolumeInformation_def Let_def call_def same_shape_def permitted_def)
qed

lemma step_ok_refineSimilarityTc:
  assumes "useRefineFuse (refineParams s)"
    and "depthRange = \<lparr>range_begin = 0, range_end = z (getSize (volumeRefineSim_dmp s))\<rparr>"
  shows "step_ok s (refineSimilarityTc env tile r depthRange cam tc s)"
  using assms
  by (intro step_okI [where cs = "[RequestCamera tc (scale (refineParams s)),
                                   VolumeRefineSimilarity tc depthRange]"])
    (simp_all add: refineSimilarityTc_def Let_def call_def same_shape_def permitted_def writeBuffer_def)

lemma step_ok_fold_refineSimilarityTc:
  assumes "useRefineFuse (refineParams s)"
    and "depthRange = \<lparr>range_begin = 0, range_end = z (getSize (volumeRefineSim_dmp s))\<rparr>"
  shows "step_ok s (fold (refineSimilarityTc env tile r depthRange cam) tcs s)"
  using assms
proof (induction tcs arbitrary: s)
  case Nil
  show ?case by (simp add: step_ok_refl)
next
  case (Cons tc tcs)
  let ?t = "refineSimilarityTc env tile r depthRange cam tc s"
  from Cons.prems have st: "step_ok s ?t" by (rule step_ok_refineSimilarityTc)
  then have sh: "same_shape s ?t" by (rule step_okD(1))
  with Cons.prems have "step_ok ?t (fold (refineSimilarityTc env tile r depthRange cam) tcs ?t)"
    by (intro Cons.IH) (simp_all add: same_shape_def)
  with st show ?case by (simp add: step_ok_trans)
qed

lemma step_ok_then_call: "step_ok s t \<Longrightarrow> permitted s c \<Longrightarrow> step_ok s (call c t)"
proof -
  assume st: "step_ok s t" and c: "permitted s c"
  from st have "permitted t = permitted s" by (intro permitted_same_shape step_okD(1))
  with c have "step_ok t (call c t)"
    by (intro step_ok_call) (simp_all add: same_shape_refl)
  with st show ?thesis by (rule step_ok_trans)
qed

lemma step_ok_silent:
  assumes "step_ok s t" and "same_shape t u" and "calls u = calls t"
  shows "step_ok s u"
proof -
  from assms(2,3) have "step_ok t u"
    by (intro step_okI [where cs = "[]"]) simp_all
  with assms(1) show ?thesis by (rule step_ok_trans)
qed

lemma step_ok_sgm:
  "step_ok s t \<Longrightarrow> getSize v = getSize (sgmDepthPixSizeMap_dmp t)
     \<Longrightarrow> step_ok s (t\<lparr>sgmDepthPixSizeMap_dmp := v\<rparr>)"
  by (erule step_ok_silent) (simp_all add: same_shape_def)

lemma step_ok_refined:
  "step_ok s t \<Longrightarrow> getSize v = getSize (refinedDepthSimMap_dmp t)
     \<Longrightarrow> step_ok s (t\<lparr>refinedDepthSimMap_dmp := v\<rparr>)"
  by (erule step_ok_silent) (simp_all add: same_shape_def)

lemma step_ok_optimized:
  "step_ok s t \<Longrightarrow> getSize v = getSize (optimizedDepthSimMap_dmp t)
     \<Longrightarrow> step_ok s (t\<lparr>optimizedDepthSimMap_dmp := v\<rparr>)"
  by (erule step_ok_silent) (simp_all add: same_shape_def)

lemma step_ok_normal:
  "step_ok s t \<Longrightarrow> getSize v = getSize (normalMap_dmp t)
     \<Longrightarrow> step_ok s (t\<lparr>normalMap_dmp := v\<rparr>)"
  by (erule step_ok_silent) (simp_all add: same_shape_def)

lemma step_ok_volume:
  "step_ok s t \<Longrightarrow> getSize v = getSize (volumeRefineSim_dmp t)
     \<Longrightarrow> step_ok s (t\<lparr>volumeRefineSim_dmp := v\<rparr>)"
  by (erule step_ok_silent) (simp_all add: same_shape_def)

lemma step_ok_variance:
  "step_ok s t \<Longrightarrow> getSize v = getSize (optImgVariance_dmp t)
     \<Longrightarrow> step_ok s (t\<lparr>optImgVariance_dmp := v\<rparr>)"
  by (erule step_ok_silent) (simp_all add: same_shape_def)

lemma step_ok_tmp:
  "step_ok s t \<Longrightarrow> getSize v = getSize (optTmpDepthMap_dmp t)
     \<Longrightarrow> step_ok s (t\<lparr>optTmpDepthMap_dmp := v\<rparr>)"
  by (erule step_ok_silent) (simp_all add: same_shape_def)

lemmas step_ok_updates =
  step_ok_sgm step_ok_refined step_ok_optimized step_ok_normal step_ok_volume step_ok_variance
  step_ok_tmp

lemma step_ok_then_export:
  "step_ok s t \<Longrightarrow> step_ok s (exportVolumeInformation tile name t)"
  by (erule step_ok_trans) (rule step_ok_exportVolumeInformation)

lemma step_ok_then_fold:
  assumes "step_ok s t" and "useRefineFuse (refineParams t)"
    and "depthRange = \<lparr>range_begin = 0, range_end = z (getSize (volumeRefineSim_dmp t))\<rparr>"
  shows "step_ok s (fold (refineSimilarityTc env tile r depthRange cam) tcs t)"
  using assms(1) step_ok_fold_refineSimilarityTc [OF assms(2,3)] by (rule step_ok_trans)

lemma step_ok_frame:
  assumes "step_ok s t"
  shows "refineParams t = refineParams s"
    and "getSize (sgmDepthPixSizeMap_dmp t) = getSize (sgmDepthPixSizeMap_dmp s)"
    and "getSize (refinedDepthSimMap_dmp t) = getSize (refinedDepthSimMap_dmp s)"
    and "getSize (optimizedDepthSimMap_dmp t) = getSize (optimizedDepthSimMap_dmp s)"
    and "getSize (normalMap_dmp t) = getSize (normalMap_dmp s)"
    and "getSize (volumeRefineSim_dmp t) = getSize (volumeRefineSim_dmp s)"
    and "getSize (optImgVariance_dmp t) = getSize (optImgVariance_dmp s)"
    and "getSize (optTmpDepthMap_dmp t) = getSize (optTmpDepthMap_dmp s)"
    and "tileParams t = tileParams s"
  using step_okD(1) [OF assms] by (simp_all add: same_shape_def)

lemma step_ok_refineAndFuseDepthSimMap:
  assumes "useRefineFuse (refineParams s)"
  shows "step_ok s (refineAndFuseDepthSimMap env tile s)"
  unfolding refineAndFuseDepthSimMap_def Let_def
  by (intro step_ok_then_call step_ok_updates step_ok_then_export step_ok_then_fold step_ok_refl)
    (simp_all add: permitted_def writeBuffer_def call_def assms exportVolumeInformation_def)

lemma step_ok_optimizeDepthSimMap:
  assumes "useColorOptimization (refineParams s)" and "0 < optimizationNbIterations (refineParams s)"
  shows "step_ok s (optimizeDepthSimMap env tile s)"
  unfolding optimizeDepthSimMap_def Let_def
  by (intro step_ok_then_call step_ok_updates step_ok_refl)
    (simp_all add: permitted_def writeBuffer_def call_def assms)

lemma step_ok_if:
  "(b \<Longrightarrow> step_ok s x) \<Longrightarrow> (\<not> b \<Longrightarrow> step_ok s y) \<Longrightarrow> step_ok s (if b then x else y)"
  by simp

lemma step_ok_upscaleSgmDepthPixSizeMap:
  "step_ok s (upscaleSgmDepthPixSizeMap env tile in_sgm in_normal s)"
  unfolding upscaleSgmDepthPixSizeMap_def Let_def
  by (intro step_ok_if step_ok_then_call step_ok_updates step_ok_refl)
    (simp_all add: permitted_def writeBuffer_def call_def split: if_splits)

lemma step_ok_then_refineAndFuse:
  assumes "step_ok s t" and "useRefineFuse (refineParams t)"
  shows "step_ok s (refineAndFuseDepthSimMap env tile t)"
  using assms(1) step_ok_refineAndFuseDepthSimMap [OF assms(2)] by (rule step_ok_trans)

lemma step_ok_then_optimize:
  assumes "step_ok s t" and "useColorOptimization (refineParams t)"
    and "0 < optimizationNbIterations (refineParams t)"
  shows "step_ok s (optimizeDepthSimMap env tile t)"
  using assms(1) step_ok_optimizeDepthSimMap [OF assms(2,3)] by (rule step_ok_trans)

lemmas upscale_frame = step_ok_frame [OF step_ok_upscaleSgmDepthPixSizeMap]

lemma refineAndFuse_frame:
  assumes "useRefineFuse (refineParams s)"
  shows "refineParams (refineAndFuseDepthSimMap env tile s) = refineParams s"
    and "getSize (refinedDepthSimMap_dmp (refineAndFuseDepthSimMap env tile s))
         = getSize (refinedDepthSimMap_dmp s)"
    and "getSize (optimizedDepthSimMap_dmp (refineAndFuseDepthSimMap env tile s))
         = getSize (optimizedDepthSimMap_dmp s)"
  using step_ok_frame [OF step_ok_refineAndFuseDepthSimMap [OF assms, of env tile]] by simp_all

lemma step_ok_refineRc: "step_ok s (refineRc env tile in_sgm in_normal s)"
  unfolding refineRc_def Let_def
  by (intro step_ok_if step_ok_then_call step_ok_updates step_ok_then_refineAndFuse
        step_ok_then_optimize step_ok_upscaleSgmDepthPixSizeMap)
    (simp_all add: permitted_def call_def copyFrom_def upscale_frame refineAndFuse_frame
       split: if_splits)

lemmas refineRc_frame = step_ok_frame [OF step_ok_refineRc]

lemma optimized_copy:
  assumes "\<not> useColorOptimization (refineParams s) \<or> optimizationNbIterations (refineParams s) \<le> 0"
  shows "getBuffer (optimizedDepthSimMap_dmp (refineRc env tile in_sgm in_normal s))
         = getBuffer (refinedDepthSimMap_dmp (refineRc env tile in_sgm in_normal s))"
  using assms
  by (auto simp add: refineRc_def Let_def call_def copyFrom_def upscale_frame refineAndFuse_frame)

lemma not_permitted_not_called:
  assumes "step_ok s s'" and "\<not> permitted s c"
  shows "c \<notin> set (new_calls s s')"
  using step_okD(3) [OF assms(1)] assms(2) by (auto simp: list_all_iff)

lemma passthrough_when_fuse_disabled:
  assumes "\<not> useRefineFuse (refineParams s)"
  shows "getBuffer (refinedDepthSimMap_dmp (refineRc env tile in_sgm in_normal s))
         = map_devmem (\<lambda>v. (fst v, float_one))
             (getBuffer (sgmDepthPixSizeMap_dmp (upscaleSgmDepthPixSizeMap env tile in_sgm in_normal s)))"
    and "sgmDepthPixSizeMap_dmp (refineRc env tile in_sgm in_normal s)
         = sgmDepthPixSizeMap_dmp (upscaleSgmDepthPixSizeMap env tile in_sgm in_normal s)"
  using assms
  by (auto simp add: refineRc_def Let_def call_def copyFrom_def upscale_frame
      cuda_depthSimMapCopyDepthOnly_def optimizeDepthSimMap_def writeBuffer_def)

lemma upscaled_is_data:
  "\<exists>xs. getBuffer (sgmDepthPixSizeMap_dmp (upscaleSgmDepthPixSizeMap env tile in_sgm in_normal s)) = Data xs"
  by (simp add: upscaleSgmDepthPixSizeMap_def Let_def call_def writeBuffer_def)


section \<open>Export flags do not reach the buffers\<close>

lemma with_export_flags_simps:
  "scale (with_export_flags m c v p) = scale p"
  "stepXY (with_export_flags m c v p) = stepXY p"
  "halfNbDepths (with_export_flags m c v p) = halfNbDepths p"
  "useRefineFuse (with_export_flags m c v p) = useRefineFuse p"
  "useColorOptimization (with_export_flags m c v p) = useColorOptimization p"
  "useNormalMap (with_export_flags m c v p) = useNormalMap p"
  "optimizationNbIterations (with_export_flags m c v p) = optimizationNbIterations p"
  "exportIntermediateDepthSimMaps (with_export_flags m c v p) = m"
  "exportIntermediateCrossVolumes (with_export_flags m c v p) = c"
  "exportIntermediateVolume9pCsv (with_export_flags m c v p) = v"
  by (simp_all add: with_export_flags_def)

lemma export_blindD:
  assumes "export_blind env"
  shows "cuda_depthSimMapUpscaleAndFilter env out_dmp in_dmp cam (with_export_flags m c v p) r
         = cuda_depthSimMapUpscaleAndFilter env out_dmp in_dmp cam p r"
    and "cuda_depthSimMapComputePixSize env dmp cam (with_export_flags m c v p) r
         = cuda_depthSimMapComputePixSize env dmp cam p r"
    and "cuda_volumeRefineSimilarity env vol sgm nm rcam tcam (with_export_flags m c v p) rg r
         = cuda_volumeRefineSimilarity env vol sgm nm rcam tcam p rg r"
    and "cuda_volumeRefineBestDepth env out_dmp sgm vol cam (with_export_flags m c v p) r
         = cuda_volumeRefineBestDepth env out_dmp sgm vol cam p r"
    and "cuda_depthSimMapOptimizeGradientDescent env out_dmp var tmp sgm refined cam
           (with_export_flags m c v p) r
         = cuda_depthSimMapOptimizeGradientDescent env out_dmp var tmp sgm refined cam p r"
  using assms unfolding export_blind_def by simp_all

lemma export_variantD:
  assumes "export_variant m c v s t"
  shows "refineParams t = with_export_flags m c v (refineParams s)"
    and "sgmDepthPixSizeMap_dmp t = sgmDepthPixSizeMap_dmp s"
    and "refinedDepthSimMap_dmp t = refinedDepthSimMap_dmp s"
    and "optimizedDepthSimMap_dmp t = optimizedDepthSimMap_dmp s"
    and "normalMap_dmp t = normalMap_dmp s"
    and "volumeRefineSim_dmp t = volumeRefineSim_dmp s"
    and "optImgVariance_dmp t = optImgVariance_dmp s"
    and "optTmpDepthMap_dmp t = optTmpDepthMap_dmp s"
  using assms by (simp_all add: export_variant_def buffers_def)

lemma export_variantI:
  assumes "refineParams t = with_export_flags m c v (refineParams s)"
    and "sgmDepthPixSizeMap_dmp t = sgmDepthPixSizeMap_dmp s"
    and "refinedDepthSimMap_dmp t = refinedDepthSimMap_dmp s"
    and "optimizedDepthSimMap_dmp t = optimizedDepthSimMap_dmp s"
    and "normalMap_dmp t = normalMap_dmp s"
    and "volumeRefineSim_dmp t = volumeRefineSim_dmp s"
    and "optImgVariance_dmp t = optImgVariance_dmp s"
    and "optTmpDepthMap_dmp t = optTmpDepthMap_dmp s"
  shows "export_variant m c v s t"
  using assms by (simp add: export_variant_def buffers_def)

lemma export_variant_exportVolumeInformation:
  assumes "export_variant m c v s t"
  shows "export_variant m c v (exportVolumeInformation tile name s) (exportVolumeInformation tile name t)"
  using export_variantD [OF assms]
  by (intro export_variantI) (simp_all add: exportVolumeInformation_def Let_def call_def)

lemma export_variant_refineSimilarityTc:
  assumes "export_blind env" and "export_variant m c v s t"
  shows "export_variant m c v (refineSimilarityTc env tile r rg cam tc s)
           (refineSimilarityTc env tile r rg cam tc t)"
  using export_variantD [OF assms(2)]
  by (intro export_variantI)
    (simp_all add: refineSimilarityTc_def Let_def call_def with_export_flags_simps
      export_blindD [OF assms(1)])

lemma export_variant_fold:
  assumes "export_blind env" and "export_variant m c v s t"
  shows "export_variant m c v (fold (refineSimilarityTc env tile r rg cam) tcs s)
           (fold (refineSimilarityTc env tile r rg cam) tcs t)"
  using assms(2)
  by (induction tcs arbitrary: s t) (simp_all add: export_variant_refineSimilarityTc [OF assms(1)])

lemma ev_call: "export_variant m c v S T \<Longrightarrow> export_variant m c v (call a S) (call b T)"
  by (simp add: export_variant_def buffers_def call_def)

lemma ev_sgm:
  "export_variant m c v S T \<Longrightarrow> (export_variant m c v S T \<Longrightarrow> x = y)
     \<Longrightarrow> export_variant m c v (S\<lparr>sgmDepthPixSizeMap_dmp := x\<rparr>) (T\<lparr>sgmDepthPixSizeMap_dmp := y\<rparr>)"
  by (simp add: export_variant_def buffers_def)

lemma ev_refined:
  "export_variant m c v S T \<Longrightarrow> (export_variant m c v S T \<Longrightarrow> x = y)
     \<Longrightarrow> export_variant m c v (S\<lparr>refinedDepthSimMap_dmp := x\<rparr>) (T\<lparr>refinedDepthSimMap_dmp := y\<rparr>)"
  by (simp add: export_variant_def buffers_def)

lemma ev_optimized:
  "export_variant m c v S T \<Longrightarrow> (export_variant m c v S T \<Longrightarrow> x = y)
     \<Longrightarrow> export_variant m c v (S\<lparr>optimizedDepthSimMap_dmp := x\<rparr>) (T\<lparr>optimizedDepthSimMap_dmp := y\<rparr>)"
  by (simp add: export_variant_def buffers_def)

lemma ev_normal:
  "export_variant m c v S T \<Longrightarrow> (export_variant m c v S T \<Longrightarrow> x = y)
     \<Longrightarrow> export_variant m c v (S\<lparr>normalMap_dmp := x\<rparr>) (T\<lparr>normalMap_dmp := y\<rparr>)"
  by (simp add: export_variant_def buffers_def)

lemma ev_volume:
  "export_variant m c v S T \<Longrightarrow> (export_variant m c v S T \<Longrightarrow> x = y)
     \<Longrightarrow> export_variant m c v (S\<lparr>volumeRefineSim_dmp := x\<rparr>) (T\<lparr>volumeRefineSim_dmp := y\<rparr>)"
  by (simp add: export_variant_def buffers_def)

lemma ev_opt3:
  "export_variant m c v S T \<Longrightarrow> (export_variant m c v S T \<Longrightarrow> x = x' \<and> y = y' \<and> w = w')
     \<Longrightarrow> export_variant m c v
           (S\<lparr>optimizedDepthSimMap_dmp := x, optImgVariance_dmp := y, optTmpDepthMap_dmp := w\<rparr>)
           (T\<lparr>optimizedDepthSimMap_dmp := x', optImgVariance_dmp := y', optTmpDepthMap_dmp := w'\<rparr>)"
  by (simp add: export_variant_def buffers_def)

lemma ev_export_if:
  "export_variant m c v S T
     \<Longrightarrow> export_variant m c v (if b then call a S else S) (if b' then call a' T else T)"
  by (simp add: export_variant_def buffers_def call_def)

lemma ev_if:
  "(export_variant m c v S T \<Longrightarrow> b' = b) \<Longrightarrow> export_variant m c v S T
     \<Longrightarrow> (b \<Longrightarrow> export_variant m c v X X') \<Longrightarrow> (\<not> b \<Longrightarrow> export_variant m c v Y Y')
     \<Longrightarrow> export_variant m c v (if b then X else Y) (if b' then X' else Y')"
  by simp

lemma ev_fold:
  assumes "export_blind env" and "export_variant m c v S T"
    and "export_variant m c v S T \<Longrightarrow> r' = r \<and> rg' = rg \<and> cam' = cam"
  shows "export_variant m c v (fold (refineSimilarityTc env tile r rg cam) tcs S)
           (fold (refineSimilarityTc env tile r' rg' cam') tcs T)"
  using export_variant_fold [OF assms(1,2)] assms(2,3) by simp

lemmas ev_frame = export_variantD(1) with_export_flags_simps

lemma export_variant_refineAndFuseDepthSimMap:
  assumes "export_blind env" and "export_variant m c v s t"
  shows "export_variant m c v (refineAndFuseDepthSimMap env tile s) (refineAndFuseDepthSimMap env tile t)"
  using export_variantD [OF assms(2)]
  unfolding refineAndFuseDepthSimMap_def Let_def
  by (intro ev_call ev_refined ev_volume export_variant_exportVolumeInformation
        ev_fold [OF assms(1)] assms(2))
    (simp_all add: call_def with_export_flags_simps export_blindD [OF assms(1)]
       exportVolumeInformation_def export_variant_def buffers_def)

lemma export_variant_optimizeDepthSimMap:
  assumes "export_blind env" and "export_variant m c v s t"
  shows "export_variant m c v (optimizeDepthSimMap env tile s) (optimizeDepthSimMap env tile t)"
  using export_variantD [OF assms(2)]
  unfolding optimizeDepthSimMap_def Let_def
  by (intro ev_call ev_opt3 assms(2))
    (simp_all add: call_def with_export_flags_simps export_blindD [OF assms(1)]
       export_variant_def buffers_def)

lemma export_variant_upscaleSgmDepthPixSizeMap:
  assumes "export_blind env" and "export_variant m c v s t"
  shows "export_variant m c v (upscaleSgmDepthPixSizeMap env tile in_sgm in_normal s)
           (upscaleSgmDepthPixSizeMap env tile in_sgm in_normal t)"
  using export_variantD [OF assms(2)]
  unfolding upscaleSgmDepthPixSizeMap_def Let_def
  by (intro ev_if [where S = s and T = t] ev_call ev_normal ev_sgm ev_export_if assms(2))
    (simp_all add: call_def with_export_flags_simps export_blindD [OF assms(1)]
       export_variant_def buffers_def)

lemma export_variant_refineRc:
  assumes blind: "export_blind env" and st: "export_variant m c v s t"
  shows "export_variant m c v (refineRc env tile in_sgm in_normal s) (refineRc env tile in_sgm in_normal t)"
proof -
  define U where "U = upscaleSgmDepthPixSizeMap env tile in_sgm in_normal s"
  define U' where "U' = upscaleSgmDepthPixSizeMap env tile in_sgm in_normal t"
  have u: "export_variant m c v U U'"
    unfolding U_def U'_def using blind st by (rule export_variant_upscaleSgmDepthPixSizeMap)
  define S1 where "S1 =
    (if useRefineFuse (refineParams U) then refineAndFuseDepthSimMap env tile U
     else call DepthSimMapCopyDepthOnly
            (U\<lparr>refinedDepthSimMap_dmp :=
                 (refinedDepthSimMap_dmp U)
                   \<lparr>getBuffer := cuda_depthSimMapCopyDepthOnly (refinedDepthSimMap_dmp U)
                                    (sgmDepthPixSizeMap_dmp U) float_one\<rparr>\<rparr>))"
  define T1 where "T1 =
    (if useRefineFuse (refineParams U') then refineAndFuseDepthSimMap env tile U'
     else call DepthSimMapCopyDepthOnly
            (U'\<lparr>refinedDepthSimMap_dmp :=
                 (refinedDepthSimMap_dmp U')
                   \<lparr>getBuffer := cuda_depthSimMapCopyDepthOnly (refinedDepthSimMap_dmp U')
                                    (sgmDepthPixSizeMap_dmp U') float_one\<rparr>\<rparr>))"
  have s1: "export_variant m c v S1 T1"
    unfolding S1_def T1_def
    by (intro ev_if [where S = U and T = U'] ev_call ev_refined u
          export_variant_refineAndFuseDepthSimMap [OF blind])
      (simp_all add: export_variantD with_export_flags_simps)
  define S2 where "S2 =
    (if exportIntermediateDepthSimMaps (refineParams S1)
     then call (WriteDepthSimMap ''_refinedFused'') S1 else S1)"
  define T2 where "T2 =
    (if exportIntermediateDepthSimMaps (refineParams T1)
     then call (WriteDepthSimMap ''_refinedFused'') T1 else T1)"
  have s2: "export_variant m c v S2 T2"
    unfolding S2_def T2_def using s1 by (rule ev_export_if)
  have "export_variant m c v
     (if useColorOptimization (refineParams S2) \<and> optimizationNbIterations (refineParams S2) > 0
      then optimizeDepthSimMap env tile S2
      else call CopyFrom
             (S2\<lparr>optimizedDepthSimMap_dmp :=
                  copyFrom (refinedDepthSimMap_dmp S2) (optimizedDepthSimMap_dmp S2)\<rparr>))
     (if useColorOptimization (refineParams T2) \<and> optimizationNbIterations (refineParams T2) > 0
      then optimizeDepthSimMap env tile T2
      else call CopyFrom
             (T2\<lparr>optimizedDepthSimMap_dmp :=
                  copyFrom (refinedDepthSimMap_dmp T2) (optimizedDepthSimMap_dmp T2)\<rparr>))"
    by (intro ev_if [where S = S2 and T = T2] ev_call ev_optimized s2
          export_variant_optimizeDepthSimMap [OF blind])
      (simp_all add: export_variantD with_export_flags_simps)
  then show ?thesis
    unfolding refineRc_def Let_def S2_def T2_def S1_def T1_def U_def U'_def .
qed


section \<open>Byte totals\<close>












lemma new_calls_append:
  assumes "step_ok s t" and "calls u = calls t @ cs"
  shows "new_calls s u = new_calls s t @ cs"
proof -
  from step_okD(2) [OF assms(1)] have "length (calls s) \<le> length (calls t)"
    by (metis le_add1 length_append)
  with assms(2) show ?thesis by (simp add: new_calls_def)
qed

lemma refineRc_copy_step:
  assumes "\<not> useColorOptimization (refineParams s) \<or> optimizationNbIterations (refineParams s) \<le> 0"
  shows "\<exists>t. step_ok s t \<and> calls (refineRc env tile in_sgm in_normal s) = calls t @ [CopyFrom]"
proof -
  define U where "U = upscaleSgmDepthPixSizeMap env tile in_sgm in_normal s"
  define S1 where "S1 =
    (if useRefineFuse (refineParams U) then refineAndFuseDepthSimMap env tile U
     else call DepthSimMapCopyDepthOnly
            (U\<lparr>refinedDepthSimMap_dmp :=
                 (refinedDepthSimMap_dmp U)
                   \<lparr>getBuffer := cuda_depthSimMapCopyDepthOnly (refinedDepthSimMap_dmp U)
                                    (sgmDepthPixSizeMap_dmp U) float_one\<rparr>\<rparr>))"
  define S2 where "S2 =
    (if exportIntermediateDepthSimMaps (refineParams S1)
     then call (WriteDepthSimMap ''_refinedFused'') S1 else S1)"
  have u: "step_ok s U"
    unfolding U_def by (rule step_ok_upscaleSgmDepthPixSizeMap)
  have s1: "step_ok s S1"
    unfolding S1_def
    by (intro step_ok_if step_ok_then_call step_ok_updates step_ok_then_refineAndFuse u)
      (simp_all add: permitted_def step_ok_frame [OF u])
  have s2: "step_ok s S2"
    unfolding S2_def
    by (intro step_ok_if step_ok_then_call s1) (simp_all add: permitted_def step_ok_frame [OF s1])
  from assms have "refineRc env tile in_sgm in_normal s
      = call CopyFrom (S2\<lparr>optimizedDepthSimMap_dmp :=
                            copyFrom (refinedDepthSimMap_dmp S2) (optimizedDepthSimMap_dmp S2)\<rparr>)"
    unfolding refineRc_def Let_def S2_def [symmetric] S1_def [symmetric] U_def [symmetric]
    by (auto simp add: step_ok_frame [OF s2])
  then have "calls (refineRc env tile in_sgm in_normal s) = calls S2 @ [CopyFrom]"
    by (simp add: call_def)
  with s2 show ?thesis by blast
qed


section \<open>The similarity volume after refine and fuse\<close>











section \<open>Evaluation on the sample environment\<close>

lemma sampleEnv_granted: "\<forall>t ds. deviceMalloc sampleEnv t ds"
  by (simp add: sampleEnv_def)

lemma sampleEnv_blind: "export_blind sampleEnv"
  by (simp add: export_blind_def sampleEnv_def with_export_flags_def split: devmem.splits)

lemmas sample_run =
  refineRc_def upscaleSgmDepthPixSizeMap_def refineAndFuseDepthSimMap_def optimizeDepthSimMap_def
  refineSimilarityTc_def exportVolumeInformation_def cuda_depthSimMapCopyDepthOnly_def copyFrom_def
  writeBuffer_def allocated_def call_def Let_def constructed_def sampleEnv_def sampleTile_def sampleTileParams_def
  sampleParams_def sampleSgmDepthSimMap_def unallocated2_def unallocated3_def ceilDiv_def
  extents2_def extents3_def z_def float_one_def TSimRefine_zero_def new_calls_def int32_def
  cuda_volumeRefineSimilarity_spec_def sampleScore_def

lemma bitlen_numeral_simps:
  "bitlen 1 = 1"
  "bitlen (numeral Num.One) = 1"
  "bitlen (numeral (Num.Bit0 n)) = bitlen (numeral n) + 1"
  "bitlen (numeral (Num.Bit1 n)) = bitlen (numeral n) + 1"
  by (subst compute_bitlen, simp)+

lemmas fl64_eval =
  fl64_def ulpExponent_def ilogb_def roundHalfEven_def Let_def bitlen_numeral_simps
  dadd_def dsub_def dmul_def ddiv_def double_of_nat_def is_double_def DBL_MAX_def

lemmas intrinsics_eval =
  cam2ima_def ima2cam_def getPrincipalPoint_def cam_roundtrip_exact_def ima_roundtrip_exact_def






lemma tileScore_refineTCams [simp]:
  "tileScore env score (tile\<lparr>refineTCams := tcs\<rparr>) s = tileScore env score tile s"
  by (simp add: tileScore_def fun_eq_iff)





section \<open>The properties of the specification\<close>

subsection \<open>Construction\<close>

text \<open>
  C1, as stated: a parameter set with \<open>halfNbDepths = 0\<close> or a negative
  \<open>optimizationNbIterations\<close> is rejected by the constructor before any device allocation.
  The constructor has no check: on a device that grants the allocations, such a parameter
  set yields an engine, which holds the parameters as given, after six allocations.
\<close>

theorem construction_rejects_counterexample:
  "halfNbDepths (sampleParams\<lparr>halfNbDepths := 0, optimizationNbIterations := - 1\<rparr>) = 0
   \<and> optimizationNbIterations (sampleParams\<lparr>halfNbDepths := 0, optimizationNbIterations := - 1\<rparr>) < 0
   \<and> \<not> isl (Refine_Refine sampleEnv sampleTileParams
               (sampleParams\<lparr>halfNbDepths := 0, optimizationNbIterations := - 1\<rparr>))
   \<and> refineParams (projr (Refine_Refine sampleEnv sampleTileParams
                              (sampleParams\<lparr>halfNbDepths := 0, optimizationNbIterations := - 1\<rparr>)))
       = sampleParams\<lparr>halfNbDepths := 0, optimizationNbIterations := - 1\<rparr>
   \<and> calls (projr (Refine_Refine sampleEnv sampleTileParams
                      (sampleParams\<lparr>halfNbDepths := 0, optimizationNbIterations := - 1\<rparr>)))
       = [Allocate Float2 [2, 1], Allocate Float2 [2, 1], Allocate Float2 [2, 1],
          Allocate SimRefine [2, 1, 1], Allocate Float [2, 1], Allocate Float [2, 1]]"
proof -
  have "Refine_Refine sampleEnv sampleTileParams
          (sampleParams\<lparr>halfNbDepths := 0, optimizationNbIterations := - 1\<rparr>)
        = Inr (constructed sampleEnv sampleTileParams
                 (sampleParams\<lparr>halfNbDepths := 0, optimizationNbIterations := - 1\<rparr>))"
    using sampleEnv_granted by (rule Refine_Refine_granted)
  then show ?thesis
    by (simp add: constructed_def Let_def sampleEnv_def sampleTileParams_def sampleParams_def
        ceilDiv_def extents2_def extents3_def int32_def)
qed

text \<open>
  C1, amended: the constructor does not validate the parameters. The allocations it
  requests are the calls of \<open>constructed\<close>, and it requests nothing else. It returns an engine
  exactly when the device grants each of the requested allocations, whatever the
  parameters are, and the engine is then \<open>constructed\<close>, which holds the tile and refine
  parameters as given; it fails exactly when the device refuses one of the requested
  allocations, with the allocation error.
\<close>

theorem Refine_Refine_no_validation:
  "(\<forall>c \<in> set (calls (constructed env tp rp)). \<exists>t ds. c = Allocate t ds)
   \<and> calls (constructed env tp rp) \<noteq> []
   \<and> refineParams (constructed env tp rp) = rp \<and> tileParams (constructed env tp rp) = tp
   \<and> (Refine_Refine env tp rp = Inr s \<longleftrightarrow>
        s = constructed env tp rp
        \<and> (\<forall>t ds. Allocate t ds \<in> set (calls (constructed env tp rp)) \<longrightarrow> deviceMalloc env t ds))
   \<and> (Refine_Refine env tp rp = Inl e \<longleftrightarrow>
        e = CudaAllocationError
        \<and> (\<exists>t ds. Allocate t ds \<in> set (calls (constructed env tp rp)) \<and> \<not> deviceMalloc env t ds))"
proof (intro conjI)
  show "\<forall>c \<in> set (calls (constructed env tp rp)). \<exists>t ds. c = Allocate t ds"
    by (rule constructed_calls_allocate)
  show "calls (constructed env tp rp) \<noteq> []" "refineParams (constructed env tp rp) = rp"
    "tileParams (constructed env tp rp) = tp"
    by (simp_all add: constructed_def Let_def)
  let ?granted = "\<forall>t ds. Allocate t ds \<in> set (calls (constructed env tp rp)) \<longrightarrow> deviceMalloc env t ds"
  show r: "Refine_Refine env tp rp = Inr s \<longleftrightarrow> s = constructed env tp rp \<and> ?granted"
  proof
    assume a: "Refine_Refine env tp rp = Inr s"
    then have "s = constructed env tp rp" by (rule Refine_Refine_Inr)
    moreover from a have ?granted by (rule Refine_Refine_Inr_requested)
    ultimately show "s = constructed env tp rp \<and> ?granted" by simp
  next
    assume "s = constructed env tp rp \<and> ?granted"
    then show "Refine_Refine env tp rp = Inr s"
      using Refine_Refine_requested [of env tp rp] by simp
  qed
  show "Refine_Refine env tp rp = Inl e \<longleftrightarrow>
        e = CudaAllocationError
        \<and> (\<exists>t ds. Allocate t ds \<in> set (calls (constructed env tp rp)) \<and> \<not> deviceMalloc env t ds)"
  proof
    assume l: "Refine_Refine env tp rp = Inl e"
    have "\<not> ?granted"
    proof
      assume ?granted
      then have "Refine_Refine env tp rp = Inr (constructed env tp rp)"
        by (rule Refine_Refine_requested)
      with l show False by simp
    qed
    moreover have "e = CudaAllocationError" by (cases e) simp
    ultimately show "e = CudaAllocationError
        \<and> (\<exists>t ds. Allocate t ds \<in> set (calls (constructed env tp rp)) \<and> \<not> deviceMalloc env t ds)"
      by blast
  next
    assume a: "e = CudaAllocationError
        \<and> (\<exists>t ds. Allocate t ds \<in> set (calls (constructed env tp rp)) \<and> \<not> deviceMalloc env t ds)"
    show "Refine_Refine env tp rp = Inl e"
    proof (cases "Refine_Refine env tp rp")
      case (Inl e')
      moreover have "e' = e" by (cases e; cases e') simp
      ultimately show ?thesis by simp
    next
      case (Inr s')
      then have ?granted by (rule Refine_Refine_Inr_requested)
      with a show ?thesis by blast
    qed
  qed
qed

text \<open>
  The amended C1 on the sample device, for \<open>halfNbDepths = 0\<close> and
  \<open>optimizationNbIterations = -1\<close>; on a device that refuses normal maps, which this
  parameter set does not request; and on a device that refuses the similarity volume.
\<close>

theorem Refine_Refine_no_validation_witness:
  "Refine_Refine sampleEnv sampleTileParams
        (sampleParams\<lparr>halfNbDepths := 0, optimizationNbIterations := - 1\<rparr>)
       = Inr (constructed sampleEnv sampleTileParams
                (sampleParams\<lparr>halfNbDepths := 0, optimizationNbIterations := - 1\<rparr>))
   \<and> refineParams (constructed sampleEnv sampleTileParams
                      (sampleParams\<lparr>halfNbDepths := 0, optimizationNbIterations := - 1\<rparr>))
       = sampleParams\<lparr>halfNbDepths := 0, optimizationNbIterations := - 1\<rparr>
   \<and> calls (constructed sampleEnv sampleTileParams
              (sampleParams\<lparr>halfNbDepths := 0, optimizationNbIterations := - 1\<rparr>))
       = [Allocate Float2 [2, 1], Allocate Float2 [2, 1], Allocate Float2 [2, 1],
          Allocate SimRefine [2, 1, 1], Allocate Float [2, 1], Allocate Float [2, 1]]
   \<and> \<not> deviceMalloc (sampleEnv\<lparr>deviceMalloc := \<lambda>t ds. t \<noteq> Float3\<rparr>) Float3 [2, 1]
   \<and> Refine_Refine (sampleEnv\<lparr>deviceMalloc := \<lambda>t ds. t \<noteq> Float3\<rparr>) sampleTileParams
        (sampleParams\<lparr>halfNbDepths := 0, optimizationNbIterations := - 1\<rparr>)
       = Inr (constructed (sampleEnv\<lparr>deviceMalloc := \<lambda>t ds. t \<noteq> Float3\<rparr>) sampleTileParams
                (sampleParams\<lparr>halfNbDepths := 0, optimizationNbIterations := - 1\<rparr>))
   \<and> Allocate SimRefine [2, 1, 3]
       \<in> set (calls (constructed (sampleEnv\<lparr>deviceMalloc := \<lambda>t ds. t \<noteq> SimRefine\<rparr>)
                        sampleTileParams sampleParams))
   \<and> \<not> deviceMalloc (sampleEnv\<lparr>deviceMalloc := \<lambda>t ds. t \<noteq> SimRefine\<rparr>) SimRefine [2, 1, 3]
   \<and> Refine_Refine (sampleEnv\<lparr>deviceMalloc := \<lambda>t ds. t \<noteq> SimRefine\<rparr>) sampleTileParams sampleParams
       = Inl CudaAllocationError"
proof -
  let ?bad = "sampleParams\<lparr>halfNbDepths := 0, optimizationNbIterations := - 1\<rparr>"
  let ?noNormal = "sampleEnv\<lparr>deviceMalloc := \<lambda>t ds. t \<noteq> Float3\<rparr>"
  let ?noVolume = "sampleEnv\<lparr>deviceMalloc := \<lambda>t ds. t \<noteq> SimRefine\<rparr>"
  note ev = constructed_def Let_def sampleEnv_def sampleTileParams_def sampleParams_def
    ceilDiv_def extents2_def extents3_def int32_def
  have calls: "calls (constructed sampleEnv sampleTileParams ?bad)
       = [Allocate Float2 [2, 1], Allocate Float2 [2, 1], Allocate Float2 [2, 1],
          Allocate SimRefine [2, 1, 1], Allocate Float [2, 1], Allocate Float [2, 1]]"
    by (simp add: ev)
  have g1: "\<forall>t ds. Allocate t ds \<in> set (calls (constructed sampleEnv sampleTileParams ?bad))
              \<longrightarrow> deviceMalloc sampleEnv t ds"
    by (simp add: sampleEnv_def)
  have g2: "\<forall>t ds. Allocate t ds \<in> set (calls (constructed ?noNormal sampleTileParams ?bad))
              \<longrightarrow> deviceMalloc ?noNormal t ds"
    by (auto simp add: ev)
  have r3: "Allocate SimRefine [2, 1, 3] \<in> set (calls (constructed ?noVolume sampleTileParams sampleParams))"
    by (simp add: ev)
  have d3: "\<not> deviceMalloc ?noVolume SimRefine [2, 1, 3]" by simp
  from Refine_Refine_no_validation
         [of sampleEnv sampleTileParams ?bad "constructed sampleEnv sampleTileParams ?bad"] g1
  have c1: "Refine_Refine sampleEnv sampleTileParams ?bad
              = Inr (constructed sampleEnv sampleTileParams ?bad)"
    and p1: "refineParams (constructed sampleEnv sampleTileParams ?bad) = ?bad"
    by blast+
  from Refine_Refine_no_validation
         [of ?noNormal sampleTileParams ?bad "constructed ?noNormal sampleTileParams ?bad"] g2
  have c2: "Refine_Refine ?noNormal sampleTileParams ?bad
              = Inr (constructed ?noNormal sampleTileParams ?bad)"
    by blast
  from Refine_Refine_no_validation [of ?noVolume sampleTileParams sampleParams _ CudaAllocationError]
    r3 d3
  have c3: "Refine_Refine ?noVolume sampleTileParams sampleParams = Inl CudaAllocationError"
    by blast
  have d2: "\<not> deviceMalloc ?noNormal Float3 [2, 1]" by simp
  from c1 p1 calls d2 c2 r3 d3 c3 show ?thesis by (intro conjI)
qed

subsection \<open>Refining a tile\<close>




text \<open>
  C3: with \<open>useRefineFuse\<close> false, the refined map that \<open>refineRc\<close> leaves has, pixel for
  pixel, the depth of the upscaled map (the map that the first block of \<open>refineRc\<close>
  produces, which \<open>refineRc\<close> does not change afterwards), and the similarity \<open>1.0f\<close>.
\<close>

theorem refineRc_passthrough:
  assumes "\<not> useRefineFuse (refineParams s)"
  shows "\<exists>upscaled.
           getBuffer (sgmDepthPixSizeMap_dmp (upscaleSgmDepthPixSizeMap env tile in_sgm in_normal s))
             = Data upscaled
         \<and> getBuffer (sgmDepthPixSizeMap_dmp (refineRc env tile in_sgm in_normal s)) = Data upscaled
         \<and> getBuffer (refinedDepthSimMap_dmp (refineRc env tile in_sgm in_normal s))
             = Data (map (\<lambda>depthSim. (fst depthSim, float_one)) upscaled)"
proof -
  obtain xs where xs:
    "getBuffer (sgmDepthPixSizeMap_dmp (upscaleSgmDepthPixSizeMap env tile in_sgm in_normal s)) = Data xs"
    using upscaled_is_data by blast
  with passthrough_when_fuse_disabled [OF assms, of env tile in_sgm in_normal] show ?thesis
    by simp
qed

text \<open>
  C3 on the sample environment: two pixels of depth 10 and 30.
\<close>

theorem refineRc_passthrough_witness:
  "\<not> useRefineFuse (refineParams (constructed sampleEnv sampleTileParams (sampleParams\<lparr>useRefineFuse := False\<rparr>)))
   \<and> getBuffer (sgmDepthPixSizeMap_dmp
        (refineRc sampleEnv sampleTile sampleSgmDepthSimMap unallocated2
           (constructed sampleEnv sampleTileParams (sampleParams\<lparr>useRefineFuse := False\<rparr>))))
       = Data [(10, 1), (30, 1)]
   \<and> getBuffer (refinedDepthSimMap_dmp
        (refineRc sampleEnv sampleTile sampleSgmDepthSimMap unallocated2
           (constructed sampleEnv sampleTileParams (sampleParams\<lparr>useRefineFuse := False\<rparr>))))
       = Data [(10, 0x3F800000), (30, 0x3F800000)]"
proof -
  let ?s = "constructed sampleEnv sampleTileParams (sampleParams\<lparr>useRefineFuse := False\<rparr>)"
  have h: "\<not> useRefineFuse (refineParams ?s)"
    by (simp add: constructed_def sampleParams_def Let_def)
  have "getBuffer (sgmDepthPixSizeMap_dmp (refineRc sampleEnv sampleTile sampleSgmDepthSimMap unallocated2 ?s))
        = Data [(10, 1), (30, 1)]"
    by (simp add: sample_run)
  with refineRc_passthrough [OF h, of sampleEnv sampleTile sampleSgmDepthSimMap unallocated2] h
  show ?thesis by (auto simp add: float_one_def)
qed

text \<open>
  C4: with \<open>useColorOptimization\<close> false or \<open>optimizationNbIterations = 0\<close> (the source
  tests \<open>> 0\<close>, so also for a negative count), the optimized map holds the same values, bit
  for bit, as the refined-fused map; the optimization kernel is not among the operations
  that \<open>refineRc\<close> invokes, and the last operation is the buffer copy.
\<close>

theorem refineRc_copy_when_optimization_disabled:
  assumes "\<not> useColorOptimization (refineParams s) \<or> optimizationNbIterations (refineParams s) \<le> 0"
  shows "getBuffer (optimizedDepthSimMap_dmp (refineRc env tile in_sgm in_normal s))
           = getBuffer (refinedDepthSimMap_dmp (refineRc env tile in_sgm in_normal s))
       \<and> calls (refineRc env tile in_sgm in_normal s)
           = calls s @ new_calls s (refineRc env tile in_sgm in_normal s)
       \<and> DepthSimMapOptimizeGradientDescent \<notin> set (new_calls s (refineRc env tile in_sgm in_normal s))
       \<and> last (new_calls s (refineRc env tile in_sgm in_normal s)) = CopyFrom"
proof (intro conjI)
  show "calls (refineRc env tile in_sgm in_normal s)
          = calls s @ new_calls s (refineRc env tile in_sgm in_normal s)"
    using step_ok_refineRc by (rule step_okD(2))
  show "getBuffer (optimizedDepthSimMap_dmp (refineRc env tile in_sgm in_normal s))
          = getBuffer (refinedDepthSimMap_dmp (refineRc env tile in_sgm in_normal s))"
    using assms by (rule optimized_copy)
  from assms have "\<not> permitted s DepthSimMapOptimizeGradientDescent"
    by (auto simp add: permitted_def)
  with step_ok_refineRc
  show "DepthSimMapOptimizeGradientDescent \<notin> set (new_calls s (refineRc env tile in_sgm in_normal s))"
    by (rule not_permitted_not_called)
  from refineRc_copy_step [OF assms] obtain t where
    "step_ok s t" and "calls (refineRc env tile in_sgm in_normal s) = calls t @ [CopyFrom]"
    by blast
  then have "new_calls s (refineRc env tile in_sgm in_normal s) = new_calls s t @ [CopyFrom]"
    by (rule new_calls_append)
  then show "last (new_calls s (refineRc env tile in_sgm in_normal s)) = CopyFrom"
    by simp
qed

text \<open>
  C4 on the sample environment, with \<open>optimizationNbIterations = 0\<close>.
\<close>

theorem refineRc_copy_when_optimization_disabled_witness:
  "optimizationNbIterations (refineParams (constructed sampleEnv sampleTileParams
      (sampleParams\<lparr>optimizationNbIterations := 0\<rparr>))) = 0
   \<and> getBuffer (refinedDepthSimMap_dmp
        (refineRc sampleEnv sampleTile sampleSgmDepthSimMap unallocated2
           (constructed sampleEnv sampleTileParams (sampleParams\<lparr>optimizationNbIterations := 0\<rparr>))))
       = Data [(11, 7), (31, 7)]
   \<and> getBuffer (optimizedDepthSimMap_dmp
        (refineRc sampleEnv sampleTile sampleSgmDepthSimMap unallocated2
           (constructed sampleEnv sampleTileParams (sampleParams\<lparr>optimizationNbIterations := 0\<rparr>))))
       = Data [(11, 7), (31, 7)]
   \<and> DepthSimMapOptimizeGradientDescent \<notin> set (new_calls
         (constructed sampleEnv sampleTileParams (sampleParams\<lparr>optimizationNbIterations := 0\<rparr>))
         (refineRc sampleEnv sampleTile sampleSgmDepthSimMap unallocated2
           (constructed sampleEnv sampleTileParams (sampleParams\<lparr>optimizationNbIterations := 0\<rparr>))))"
proof -
  let ?s = "constructed sampleEnv sampleTileParams (sampleParams\<lparr>optimizationNbIterations := 0\<rparr>)"
  have h: "\<not> useColorOptimization (refineParams ?s) \<or> optimizationNbIterations (refineParams ?s) \<le> 0"
    by (simp add: constructed_def sampleParams_def Let_def)
  have "getBuffer (refinedDepthSimMap_dmp (refineRc sampleEnv sampleTile sampleSgmDepthSimMap unallocated2 ?s))
        = Data [(11, 7), (31, 7)]"
    by (simp add: sample_run)
  moreover have "optimizationNbIterations (refineParams ?s) = 0"
    by (simp add: constructed_def sampleParams_def Let_def)
  ultimately show ?thesis
    using refineRc_copy_when_optimization_disabled
            [OF h, of sampleEnv sampleTile sampleSgmDepthSimMap unallocated2]
    by simp
qed




text \<open>
  C8: with the three export flags off, \<open>refineRc\<close> invokes no exporter
  (\<open>exportVolumeInformation\<close> returns at once); and whatever the export flags are, the
  seven buffers after \<open>refineRc\<close> are the same, provided the kernels, which receive the
  whole parameter record, do not look at the export flags.
\<close>

theorem export_disabled_or_enabled:
  "(\<not> exportIntermediateDepthSimMaps (refineParams s)
    \<and> \<not> exportIntermediateCrossVolumes (refineParams s)
    \<and> \<not> exportIntermediateVolume9pCsv (refineParams s)
    \<longrightarrow> filter is_export (new_calls s (refineRc env tile in_sgm in_normal s)) = [])
   \<and> calls (refineRc env tile in_sgm in_normal s)
       = calls s @ new_calls s (refineRc env tile in_sgm in_normal s)
   \<and> (export_blind env \<longrightarrow>
        buffers (refineRc env tile in_sgm in_normal
                   (s\<lparr>refineParams := with_export_flags maps cross csv (refineParams s)\<rparr>))
        = buffers (refineRc env tile in_sgm in_normal s))"
proof (intro conjI impI)
  assume off: "\<not> exportIntermediateDepthSimMaps (refineParams s)
    \<and> \<not> exportIntermediateCrossVolumes (refineParams s)
    \<and> \<not> exportIntermediateVolume9pCsv (refineParams s)"
  have "list_all (permitted s) (new_calls s (refineRc env tile in_sgm in_normal s))"
    using step_ok_refineRc by (rule step_okD(3))
  moreover from off have "\<And>c. permitted s c \<Longrightarrow> \<not> is_export c"
    by (auto simp add: permitted_def split: call.splits)
  ultimately show "filter is_export (new_calls s (refineRc env tile in_sgm in_normal s)) = []"
    by (auto simp add: filter_empty_conv list_all_iff)
next
  show "calls (refineRc env tile in_sgm in_normal s)
          = calls s @ new_calls s (refineRc env tile in_sgm in_normal s)"
    using step_ok_refineRc by (rule step_okD(2))
next
  assume blind: "export_blind env"
  have "export_variant maps cross csv s
          (s\<lparr>refineParams := with_export_flags maps cross csv (refineParams s)\<rparr>)"
    by (simp add: export_variant_def buffers_def)
  with blind have "export_variant maps cross csv (refineRc env tile in_sgm in_normal s)
      (refineRc env tile in_sgm in_normal
         (s\<lparr>refineParams := with_export_flags maps cross csv (refineParams s)\<rparr>))"
    by (rule export_variant_refineRc)
  then show "buffers (refineRc env tile in_sgm in_normal
                   (s\<lparr>refineParams := with_export_flags maps cross csv (refineParams s)\<rparr>))
        = buffers (refineRc env tile in_sgm in_normal s)"
    by (simp add: export_variant_def)
qed

text \<open>
  C8 on the sample environment: no export with the flags off, four exports with the flags
  on, and the same buffers.
\<close>

theorem export_disabled_or_enabled_witness:
  "\<not> exportIntermediateDepthSimMaps (refineParams (constructed sampleEnv sampleTileParams sampleParams))
   \<and> \<not> exportIntermediateCrossVolumes (refineParams (constructed sampleEnv sampleTileParams sampleParams))
   \<and> \<not> exportIntermediateVolume9pCsv (refineParams (constructed sampleEnv sampleTileParams sampleParams))
   \<and> export_blind sampleEnv
   \<and> filter is_export
        (new_calls (constructed sampleEnv sampleTileParams sampleParams)
           (refineRc sampleEnv sampleTile sampleSgmDepthSimMap unallocated2
              (constructed sampleEnv sampleTileParams sampleParams))) = []
   \<and> filter is_export
        (new_calls (constructed sampleEnv sampleTileParams (with_export_flags True True True sampleParams))
           (refineRc sampleEnv sampleTile sampleSgmDepthSimMap unallocated2
              (constructed sampleEnv sampleTileParams (with_export_flags True True True sampleParams))))
       = [WriteDepthSimMap ''_sgmUpscaled'', ExportSimilarityVolumeCross ''afterRefine'' (- 1) (- 1),
          ExportSimilaritySamplesCSV ''afterRefine'' (- 1) (- 1), WriteDepthSimMap ''_refinedFused'']
   \<and> buffers (refineRc sampleEnv sampleTile sampleSgmDepthSimMap unallocated2
                ((constructed sampleEnv sampleTileParams sampleParams)
                   \<lparr>refineParams := with_export_flags True True True
                      (refineParams (constructed sampleEnv sampleTileParams sampleParams))\<rparr>))
       = buffers (refineRc sampleEnv sampleTile sampleSgmDepthSimMap unallocated2
                    (constructed sampleEnv sampleTileParams sampleParams))
   \<and> getBuffer (optimizedDepthSimMap_dmp
        (refineRc sampleEnv sampleTile sampleSgmDepthSimMap unallocated2
           (constructed sampleEnv sampleTileParams sampleParams))) = Data [(13, 7), (33, 7)]"
proof -
  let ?s = "constructed sampleEnv sampleTileParams sampleParams"
  have off: "\<not> exportIntermediateDepthSimMaps (refineParams ?s)
    \<and> \<not> exportIntermediateCrossVolumes (refineParams ?s)
    \<and> \<not> exportIntermediateVolume9pCsv (refineParams ?s)"
    by (simp add: constructed_def sampleParams_def Let_def)
  have on: "filter is_export
        (new_calls (constructed sampleEnv sampleTileParams (with_export_flags True True True sampleParams))
           (refineRc sampleEnv sampleTile sampleSgmDepthSimMap unallocated2
              (constructed sampleEnv sampleTileParams (with_export_flags True True True sampleParams))))
       = [WriteDepthSimMap ''_sgmUpscaled'', ExportSimilarityVolumeCross ''afterRefine'' (- 1) (- 1),
          ExportSimilaritySamplesCSV ''afterRefine'' (- 1) (- 1), WriteDepthSimMap ''_refinedFused'']"
    by (simp add: sample_run with_export_flags_def)
  have out: "getBuffer (optimizedDepthSimMap_dmp
        (refineRc sampleEnv sampleTile sampleSgmDepthSimMap unallocated2 ?s)) = Data [(13, 7), (33, 7)]"
    by (simp add: sample_run)
  from export_disabled_or_enabled
         [of ?s sampleEnv sampleTile sampleSgmDepthSimMap unallocated2 True True True]
       off sampleEnv_blind on out
  show ?thesis by simp
qed

subsection \<open>Memory accounting\<close>







subsection \<open>Image and camera plane transforms\<close>

text \<open>
  C10, as stated: for non-zero scale components, \<open>cam2ima (ima2cam p) = p\<close>. In binary64
  this fails: for a 1920 by 1080 image with scale \<open>(1500, 1500)\<close> and no offset, the point
  \<open>(2, 2)\<close> comes back as \<open>(2 - 2 powi -43, 2)\<close>, because \<open>(2 - 960) / 1500\<close> is
  rounded.
\<close>

theorem roundtrip_counterexample:
  "fst (m_scale sampleCamera) \<noteq> 0 \<and> snd (m_scale sampleCamera) \<noteq> 0
   \<and> getPrincipalPoint sampleCamera = (960, 540)
   \<and> ima2cam sampleCamera (2, 2)
       = (- 2876298962013957 / 4503599627370496, - 807645533175109 / 2251799813685248)
   \<and> cam2ima sampleCamera (ima2cam sampleCamera (2, 2)) = (17592186044415 / 8796093022208, 2)
   \<and> cam2ima sampleCamera (ima2cam sampleCamera (2, 2)) \<noteq> (2, 2)"
  by (simp add: sampleCamera_def intrinsics_eval fl64_eval)

text \<open>
  C10, amended: for non-zero scale components the two transforms are mutually inverse
  whenever the round trip performs no rounding, that is, whenever the point and the
  intermediate results of the first transform are doubles. In general they are mutually
  inverse up to rounding: as long as no operation underflows or overflows, each component
  of \<open>ima2cam (cam2ima p)\<close> is within \<open>2 powi -50 * (\<bar>p\<bar> + \<bar>pp\<bar> / \<bar>scale\<bar>)\<close> of that of
  \<open>p\<close>, and each component of \<open>cam2ima (ima2cam p)\<close> within
  \<open>2 powi -50 * (\<bar>p\<bar> + \<bar>pp\<bar>)\<close>, where \<open>pp\<close> is the principal point.
\<close>

theorem roundtrip_within_rounding:
  assumes "fst (m_scale I) \<noteq> 0" and "snd (m_scale I) \<noteq> 0"
  shows "(cam_roundtrip_exact I p \<longrightarrow> ima2cam I (cam2ima I p) = p)
       \<and> (ima_roundtrip_exact I p \<longrightarrow> cam2ima I (ima2cam I p) = p)
       \<and> (cam_roundtrip_in_range I p \<longrightarrow>
            \<bar>fst (ima2cam I (cam2ima I p)) - fst p\<bar>
              \<le> 2 powi (- 50) * (\<bar>fst p\<bar> + \<bar>fst (getPrincipalPoint I)\<bar> / \<bar>fst (m_scale I)\<bar>)
          \<and> \<bar>snd (ima2cam I (cam2ima I p)) - snd p\<bar>
              \<le> 2 powi (- 50) * (\<bar>snd p\<bar> + \<bar>snd (getPrincipalPoint I)\<bar> / \<bar>snd (m_scale I)\<bar>))
       \<and> (ima_roundtrip_in_range I p \<longrightarrow>
            \<bar>fst (cam2ima I (ima2cam I p)) - fst p\<bar>
              \<le> 2 powi (- 50) * (\<bar>fst p\<bar> + \<bar>fst (getPrincipalPoint I)\<bar>)
          \<and> \<bar>snd (cam2ima I (ima2cam I p)) - snd p\<bar>
              \<le> 2 powi (- 50) * (\<bar>snd p\<bar> + \<bar>snd (getPrincipalPoint I)\<bar>))"
proof (intro conjI impI)
  assume ex: "cam_roundtrip_exact I p"
  obtain px py where p: "p = (px, py)" by (cases p)
  from ex have "dsub (dadd (dmul px (fst (m_scale I))) (fst (getPrincipalPoint I)))
                  (fst (getPrincipalPoint I)) = px * fst (m_scale I)"
    and "dsub (dadd (dmul py (snd (m_scale I))) (snd (getPrincipalPoint I)))
                  (snd (getPrincipalPoint I)) = py * snd (m_scale I)"
    by (simp_all add: cam_roundtrip_exact_def p Let_def is_double_def dsub_def dadd_def dmul_def)
  with ex assms show "ima2cam I (cam2ima I p) = p"
    by (simp add: cam_roundtrip_exact_def p Let_def is_double_def ima2cam_def cam2ima_def ddiv_def)
next
  assume ex: "ima_roundtrip_exact I p"
  obtain px py where p: "p = (px, py)" by (cases p)
  from ex assms have "dmul (ddiv (dsub px (fst (getPrincipalPoint I))) (fst (m_scale I)))
                  (fst (m_scale I)) = px - fst (getPrincipalPoint I)"
    and "dmul (ddiv (dsub py (snd (getPrincipalPoint I))) (snd (m_scale I)))
                  (snd (m_scale I)) = py - snd (getPrincipalPoint I)"
    by (simp_all add: ima_roundtrip_exact_def p Let_def is_double_def dsub_def ddiv_def dmul_def)
  with ex show "cam2ima I (ima2cam I p) = p"
    by (simp add: ima_roundtrip_exact_def p Let_def is_double_def ima2cam_def cam2ima_def dadd_def)
next
  assume r: "cam_roundtrip_in_range I p"
  then show "\<bar>fst (ima2cam I (cam2ima I p)) - fst p\<bar>
      \<le> 2 powi (- 50) * (\<bar>fst p\<bar> + \<bar>fst (getPrincipalPoint I)\<bar> / \<bar>fst (m_scale I)\<bar>)"
    unfolding cam_roundtrip_in_range_def ima2cam_def cam2ima_def Let_def fst_conv snd_conv
      dadd_def dsub_def dmul_def ddiv_def
    by (intro cam_roundtrip_error assms(1)) simp_all
  from r show "\<bar>snd (ima2cam I (cam2ima I p)) - snd p\<bar>
      \<le> 2 powi (- 50) * (\<bar>snd p\<bar> + \<bar>snd (getPrincipalPoint I)\<bar> / \<bar>snd (m_scale I)\<bar>)"
    unfolding cam_roundtrip_in_range_def ima2cam_def cam2ima_def Let_def fst_conv snd_conv
      dadd_def dsub_def dmul_def ddiv_def
    by (intro cam_roundtrip_error assms(2)) simp_all
next
  assume r: "ima_roundtrip_in_range I p"
  then show "\<bar>fst (cam2ima I (ima2cam I p)) - fst p\<bar>
      \<le> 2 powi (- 50) * (\<bar>fst p\<bar> + \<bar>fst (getPrincipalPoint I)\<bar>)"
    unfolding ima_roundtrip_in_range_def ima2cam_def cam2ima_def Let_def fst_conv snd_conv
      dadd_def dsub_def dmul_def ddiv_def
    by (intro ima_roundtrip_error assms(1)) simp_all
  from r show "\<bar>snd (cam2ima I (ima2cam I p)) - snd p\<bar>
      \<le> 2 powi (- 50) * (\<bar>snd p\<bar> + \<bar>snd (getPrincipalPoint I)\<bar>)"
    unfolding ima_roundtrip_in_range_def ima2cam_def cam2ima_def Let_def fst_conv snd_conv
      dadd_def dsub_def dmul_def ddiv_def
    by (intro ima_roundtrip_error assms(2)) simp_all
qed

text \<open>
  The amended C10: exactness at scale \<open>(2, 4)\<close>, offset \<open>(1, 0)\<close>, a 4 by 2 image and the
  point \<open>(3, 5)\<close>; the error bounds on the sample camera, at the image point \<open>(2, 2)\<close>
  and at the camera point \<open>(1 / 10, 1 / 3)\<close>.
\<close>

theorem roundtrip_within_rounding_witness:
  "fst (m_scale \<lparr>m_w = 4, m_h = 2, m_scale = (2, 4), m_offset = (1, 0)\<rparr>) \<noteq> 0
   \<and> snd (m_scale \<lparr>m_w = 4, m_h = 2, m_scale = (2, 4), m_offset = (1, 0)\<rparr>) \<noteq> 0
   \<and> cam_roundtrip_exact \<lparr>m_w = 4, m_h = 2, m_scale = (2, 4), m_offset = (1, 0)\<rparr> (3, 5)
   \<and> ima_roundtrip_exact \<lparr>m_w = 4, m_h = 2, m_scale = (2, 4), m_offset = (1, 0)\<rparr> (3, 5)
   \<and> cam2ima \<lparr>m_w = 4, m_h = 2, m_scale = (2, 4), m_offset = (1, 0)\<rparr> (3, 5) = (9, 21)
   \<and> ima2cam \<lparr>m_w = 4, m_h = 2, m_scale = (2, 4), m_offset = (1, 0)\<rparr>
        (cam2ima \<lparr>m_w = 4, m_h = 2, m_scale = (2, 4), m_offset = (1, 0)\<rparr> (3, 5)) = (3, 5)
   \<and> cam2ima \<lparr>m_w = 4, m_h = 2, m_scale = (2, 4), m_offset = (1, 0)\<rparr>
        (ima2cam \<lparr>m_w = 4, m_h = 2, m_scale = (2, 4), m_offset = (1, 0)\<rparr> (3, 5)) = (3, 5)
   \<and> m_scale sampleCamera = (1500, 1500)
   \<and> getPrincipalPoint sampleCamera = (960, 540)
   \<and> ima_roundtrip_in_range sampleCamera (2, 2)
   \<and> \<bar>fst (cam2ima sampleCamera (ima2cam sampleCamera (2, 2))) - 2\<bar> \<le> 2 powi (- 50) * (2 + 960)
   \<and> \<bar>snd (cam2ima sampleCamera (ima2cam sampleCamera (2, 2))) - 2\<bar> \<le> 2 powi (- 50) * (2 + 540)
   \<and> cam_roundtrip_in_range sampleCamera (1 / 10, 1 / 3)
   \<and> \<bar>fst (ima2cam sampleCamera (cam2ima sampleCamera (1 / 10, 1 / 3))) - 1 / 10\<bar>
        \<le> 2 powi (- 50) * (1 / 10 + 960 / 1500)
   \<and> \<bar>snd (ima2cam sampleCamera (cam2ima sampleCamera (1 / 10, 1 / 3))) - 1 / 3\<bar>
        \<le> 2 powi (- 50) * (1 / 3 + 540 / 1500)"
proof -
  let ?I = "\<lparr>m_w = 4, m_h = 2, m_scale = (2, 4), m_offset = (1, 0)\<rparr>"
  have s: "fst (m_scale ?I) \<noteq> 0" "snd (m_scale ?I) \<noteq> 0" by simp_all
  have c: "cam_roundtrip_exact ?I (3, 5)" by (simp add: intrinsics_eval fl64_eval)
  have i: "ima_roundtrip_exact ?I (3, 5)" by (simp add: intrinsics_eval fl64_eval)
  have v: "cam2ima ?I (3, 5) = (9, 21)" by (simp add: intrinsics_eval fl64_eval)
  have sc: "m_scale sampleCamera = (1500, 1500)" by (simp add: sampleCamera_def)
  then have s': "fst (m_scale sampleCamera) \<noteq> 0" "snd (m_scale sampleCamera) \<noteq> 0" by simp_all
  have pp: "getPrincipalPoint sampleCamera = (960, 540)"
    by (simp add: sampleCamera_def intrinsics_eval fl64_eval)
  have q: "ima2cam sampleCamera (2, 2)
       = (- 2876298962013957 / 4503599627370496, - 807645533175109 / 2251799813685248)"
    by (simp add: sampleCamera_def intrinsics_eval fl64_eval)
  have q': "cam2ima sampleCamera (1 / 10, 1 / 3) = (1110, 1040)"
    by (simp add: sampleCamera_def intrinsics_eval fl64_eval)
  have ri: "ima_roundtrip_in_range sampleCamera (2, 2)"
    unfolding ima_roundtrip_in_range_def q pp Let_def
    by (simp add: sc in_range_def fl64_eval)
  have rc: "cam_roundtrip_in_range sampleCamera (1 / 10, 1 / 3)"
    unfolding cam_roundtrip_in_range_def q' pp Let_def
    by (simp add: sc in_range_def fl64_eval)
  from roundtrip_within_rounding [OF s, of "(3, 5)"] c i v
  have exact: "ima2cam ?I (cam2ima ?I (3, 5)) = (3, 5)" "cam2ima ?I (ima2cam ?I (3, 5)) = (3, 5)"
    by simp_all
  from roundtrip_within_rounding [OF s', of "(2, 2)"] ri
  have bi: "\<bar>fst (cam2ima sampleCamera (ima2cam sampleCamera (2, 2))) - 2\<bar> \<le> 2 powi (- 50) * (2 + 960)"
    "\<bar>snd (cam2ima sampleCamera (ima2cam sampleCamera (2, 2))) - 2\<bar> \<le> 2 powi (- 50) * (2 + 540)"
    by (simp_all add: pp)
  from roundtrip_within_rounding [OF s', of "(1 / 10, 1 / 3)"] rc
  have bc: "\<bar>fst (ima2cam sampleCamera (cam2ima sampleCamera (1 / 10, 1 / 3))) - 1 / 10\<bar>
        \<le> 2 powi (- 50) * (1 / 10 + 960 / 1500)"
    "\<bar>snd (ima2cam sampleCamera (cam2ima sampleCamera (1 / 10, 1 / 3))) - 1 / 3\<bar>
        \<le> 2 powi (- 50) * (1 / 3 + 540 / 1500)"
    by (simp_all add: pp sc)
  from s c i v exact sc pp ri bi rc bc show ?thesis by (intro conjI)
qed

end
